theory Spec2Isabelle
  imports Main
begin

section \<open>Strings and host built-ins\<close>

text \<open>
  JavaScript strings are modelled as \<open>string\<close> (a list of characters). A value that
  may be \<open>undefined\<close> or \<open>null\<close> is a \<open>string option\<close>; it is falsy when it is
  absent or the empty string.
\<close>

definition truthy :: "string option \<Rightarrow> bool" where
  "truthy v = (case v of None \<Rightarrow> False | Some s \<Rightarrow> s \<noteq> [])"

text \<open>\<open>v || ''\<close> on an optional string.\<close>

definition orEmpty :: "string option \<Rightarrow> string" where
  "orEmpty v = (case v of None \<Rightarrow> [] | Some s \<Rightarrow> s)"

text \<open>\<open>s.startsWith(p)\<close>.\<close>

definition startsWith :: "string \<Rightarrow> string \<Rightarrow> bool" where
  "startsWith s p = (take (length p) s = p)"

text \<open>
  Strings stand for their UTF-8 encoding, one \<open>char\<close> for each byte. The tests that the
  server makes on them (equality, a prefix or a ten-character prefix of ASCII text, the
  search for a comma) give the same result on the encoding as on the text.

  \<open>s.trim()\<close> removes the white space and line terminators of ECMAScript at both ends:
  U+0009 to U+000D, U+0020, U+00A0, U+1680, U+2000 to U+200A, U+2028, U+2029, U+202F,
  U+205F, U+3000 and U+FEFF, here in their encodings. \<open>strip\<close> removes, as long as there
  is one, a leading occurrence of one of the given sequences.
\<close>

definition white_space :: "string list" where
  "white_space =
     [[CHR 0x09], [CHR 0x0A], [CHR 0x0B], [CHR 0x0C], [CHR 0x0D], [CHR 0x20],
      [CHR 0xC2, CHR 0xA0], [CHR 0xE1, CHR 0x9A, CHR 0x80],
      [CHR 0xE2, CHR 0x80, CHR 0x80], [CHR 0xE2, CHR 0x80, CHR 0x81],
      [CHR 0xE2, CHR 0x80, CHR 0x82], [CHR 0xE2, CHR 0x80, CHR 0x83],
      [CHR 0xE2, CHR 0x80, CHR 0x84], [CHR 0xE2, CHR 0x80, CHR 0x85],
      [CHR 0xE2, CHR 0x80, CHR 0x86], [CHR 0xE2, CHR 0x80, CHR 0x87],
      [CHR 0xE2, CHR 0x80, CHR 0x88], [CHR 0xE2, CHR 0x80, CHR 0x89],
      [CHR 0xE2, CHR 0x80, CHR 0x8A], [CHR 0xE2, CHR 0x80, CHR 0xA8],
      [CHR 0xE2, CHR 0x80, CHR 0xA9], [CHR 0xE2, CHR 0x80, CHR 0xAF],
      [CHR 0xE2, CHR 0x81, CHR 0x9F], [CHR 0xE3, CHR 0x80, CHR 0x80],
      [CHR 0xEF, CHR 0xBB, CHR 0xBF]]"

function strip :: "string list \<Rightarrow> string \<Rightarrow> string" where
  "strip ws s =
     (case find (\<lambda>w. w \<noteq> [] \<and> startsWith s w) ws of
        None \<Rightarrow> s
      | Some w \<Rightarrow> strip ws (drop (length w) s))"
  by pat_completeness auto
termination
proof (relation "measure (\<lambda>(ws, s). length s)")
  show "wf (measure (\<lambda>(ws, s). length s))" by simp
next
  fix ws :: "string list" and s w :: string
  assume "find (\<lambda>w. w \<noteq> [] \<and> startsWith s w) ws = Some w"
  then have "w \<noteq> [] \<and> startsWith s w"
    by (auto simp: find_Some_iff)
  then have "0 < length w" "s \<noteq> []"
    by (auto simp: startsWith_def)
  then show "((ws, drop (length w) s), (ws, s)) \<in> measure (\<lambda>(ws, s). length s)"
    by simp
qed

declare strip.simps [simp del]

definition trim :: "string \<Rightarrow> string" where
  "trim s = rev (strip (map rev white_space) (rev (strip white_space s)))"

subsection \<open>Dates\<close>

text \<open>
  A \<open>Date\<close> is its time value: milliseconds since 1970-01-01T00:00:00Z.
  \<open>toISOString\<close> renders it in UTC as \<open>YYYY-MM-DDTHH:mm:ss.sssZ\<close> (a sign and six
  digits for a year outside 0..9999).
\<close>

type_synonym instant = int

definition digit_char :: "nat \<Rightarrow> char" where
  "digit_char n = ''0123456789'' ! (n mod 10)"

fun pad :: "nat \<Rightarrow> nat \<Rightarrow> string" where
  "pad 0 n = []"
| "pad (Suc w) n = pad w (n div 10) @ [digit_char n]"

definition pad2 :: "int \<Rightarrow> string" where
  "pad2 n = pad (Suc (Suc 0)) (nat n)"

definition pad3 :: "int \<Rightarrow> string" where
  "pad3 n = pad (Suc (Suc (Suc 0))) (nat n)"

definition year_string :: "int \<Rightarrow> string" where
  "year_string y =
     (if 0 \<le> y \<and> y \<le> 9999 then pad (Suc (Suc (Suc (Suc 0)))) (nat y)
      else (if y < 0 then ''-'' else ''+'') @ pad (Suc (Suc (Suc (Suc (Suc (Suc 0)))))) (nat \<bar>y\<bar>))"

text \<open>The proleptic Gregorian date (year, month, day) of a day number counted from 1970-01-01.\<close>

definition civil_from_days :: "int \<Rightarrow> int \<times> int \<times> int" where
  "civil_from_days z0 =
     (let z = z0 + 719468;
          era = z div 146097;
          doe = z mod 146097;
          yoe = (doe - doe div 1460 + doe div 36524 - doe div 146096) div 365;
          y = yoe + era * 400;
          doy = doe - (365 * yoe + yoe div 4 - yoe div 100);
          mp = (5 * doy + 2) div 153;
          d = doy - (153 * mp + 2) div 5 + 1;
          m = (if mp < 10 then mp + 3 else mp - 9)
      in (if m \<le> 2 then y + 1 else y, m, d))"

definition clock_string :: "int \<Rightarrow> string" where
  "clock_string ms =
     pad2 (ms div 3600000) @ '':'' @ pad2 (ms mod 3600000 div 60000) @ '':'' @
     pad2 (ms mod 60000 div 1000)"

definition isoDate :: "instant \<Rightarrow> string" where
  "isoDate t =
     (case civil_from_days (t div 86400000) of
        (y, m, d) \<Rightarrow> year_string y @ ''-'' @ pad2 m @ ''-'' @ pad2 d)"

definition toISOString :: "instant \<Rightarrow> string" where
  "toISOString t =
     isoDate t @ ''T'' @ clock_string (t mod 86400000) @ ''.'' @ pad3 (t mod 1000) @ ''Z''"

text \<open>
  \<open>toLocaleTimeString('en-US', {hour12: false, hour: '2-digit', minute: '2-digit',
  second: '2-digit'})\<close> depends on the time zone of the server; the server environment
  below carries it as a function. For a zone at a fixed offset of \<open>off\<close> minutes east of
  UTC it is the wall-clock time \<open>HH:MM:SS\<close>:
\<close>

definition fixedOffsetTimeString :: "int \<Rightarrow> instant \<Rightarrow> string" where
  "fixedOffsetTimeString off t = clock_string ((t + off * 60000) mod 86400000)"

text \<open>The calendar date of the same wall clock, for comparison with the stored date.\<close>

definition fixedOffsetDate :: "int \<Rightarrow> instant \<Rightarrow> string" where
  "fixedOffsetDate off t = isoDate (t + off * 60000)"

section \<open>Address classification (server.js, utility functions)\<close>

record request =
  x_forwarded_for :: "string option"
  socket_remoteAddress :: "string option"
  connection_remoteAddress :: "string option"
  body_student_id :: "string option"
  body_student_name :: "string option"
  authorization :: "string option"

definition extractClientIp :: "request \<Rightarrow> string" where
  "extractClientIp req =
     (let ip0 = x_forwarded_for req;
          ip1 = (if \<not> truthy ip0 \<and> truthy (socket_remoteAddress req)
                 then socket_remoteAddress req else ip0);
          ip2 = (if \<not> truthy ip1 \<and> truthy (connection_remoteAddress req)
                 then connection_remoteAddress req else ip1);
          ip3 = orEmpty ip2;
          ip4 = (if ip3 \<noteq> [] \<and> CHR '','' \<in> set ip3
                 then trim (takeWhile (\<lambda>c. c \<noteq> CHR '','') ip3) else ip3);
          ip5 = (if ip4 \<noteq> [] \<and> startsWith ip4 ''::ffff:''
                 then drop (length ''::ffff:'') ip4 else ip4);
          ip6 = (if ip5 = ''::1'' then ''127.0.0.1'' else ip5)
      in ip6)"

definition isPrivateIp :: "string \<Rightarrow> bool" where
  "isPrivateIp ip =
     (if ip = [] then False
      else (startsWith ip ''10.'' \<or>
            startsWith ip ''192.168.'' \<or>
            startsWith ip ''172.16.'' \<or>
            startsWith ip ''172.17.'' \<or>
            startsWith ip ''172.18.'' \<or>
            startsWith ip ''172.19.'' \<or>
            startsWith ip ''172.20.'' \<or>
            startsWith ip ''172.21.'' \<or>
            startsWith ip ''172.22.'' \<or>
            startsWith ip ''172.23.'' \<or>
            startsWith ip ''172.24.'' \<or>
            startsWith ip ''172.25.'' \<or>
            startsWith ip ''172.26.'' \<or>
            startsWith ip ''172.27.'' \<or>
            startsWith ip ''172.28.'' \<or>
            startsWith ip ''172.29.'' \<or>
            startsWith ip ''172.30.'' \<or>
            startsWith ip ''172.31.'' \<or>
            ip = ''127.0.0.1'' \<or>
            ip = ''localhost''))"

text \<open>
  \<open>possibleProxy\<close>: more than one comma-separated entry in the forwarding header. (For a
  missing or empty header the source returns the falsy empty string, rendered here as
  \<open>False\<close>.)
\<close>

definition possibleProxy :: "request \<Rightarrow> bool" where
  "possibleProxy req =
     (let raw = orEmpty (x_forwarded_for req)
      in raw \<noteq> [] \<and> CHR '','' \<in> set raw)"

section \<open>Attendance logic (server.js, POST /api/attendance/mark, rules 1 to 4)\<close>

text \<open>
  The handler starts from \<open>status = 'Absent'\<close>, \<open>reason = null\<close>, and the chain of rules
  assigns both in every branch. \<open>allowedIp\<close> is a string, empty when nothing is configured.
\<close>

definition attendance_logic :: "string \<Rightarrow> bool \<Rightarrow> string \<Rightarrow> string \<times> string" where
  "attendance_logic clientIp isPrivate allowedIp =
     (if isPrivate then (''Absent'', ''private_ip'')
      else if allowedIp = [] then (''Absent'', ''missing_expected_ip'')
      else if clientIp = allowedIp then (''Present'', ''ip_matched'')
      else (''Absent'', ''ip_mismatch''))"

section \<open>Document store (db.js)\<close>

text \<open>
  The document kept in \<open>db.json\<close>: the per-student expected addresses and the list of
  attendance records. Either collection may be missing from a document that was edited
  by hand (\<open>None\<close>, where the source sees \<open>undefined\<close>). The fields of a record are
  those the server writes. The users object is a map from student ids to entries.
\<close>

record user_entry =
  expectedIp :: string
  updatedAt :: string

record att_record =
  timestamp :: string
  student_id :: string
  student_name :: string
  status :: string
  clientIp :: string
  allowedIp :: "string option"
  isPrivate :: bool
  proxy :: bool
  reason :: string

record db =
  users :: "(string \<rightharpoonup> user_entry) option"
  attendance :: "att_record list option"

definition initialDb :: db where
  "initialDb = \<lparr>users = Some Map.empty, attendance = Some []\<rparr>"

text \<open>
  What \<open>JSON.parse\<close> can return that is not such a document: \<open>null\<close>, on which every
  property access raises a TypeError; a number, string or boolean, whose properties read
  as \<open>undefined\<close> and on which an assignment to a property is ignored; an array, on
  which \<open>users\<close> and \<open>attendance\<close> read as \<open>undefined\<close> and a property assigned is kept
  by the object but left out by \<open>JSON.stringify\<close>.
\<close>

datatype json_other = JsonNull | JsonPrimitive | JsonArray

datatype loaded = Document db | Other json_other

text \<open>
  The backing file: absent, present with content that \<open>readFileSync\<close> or \<open>JSON.parse\<close>
  rejects, or the JSON text of a document or of another value (\<open>JSON.stringify\<close> and
  \<open>JSON.parse\<close> are taken to be inverse on these). Whether a write to the file succeeds
  is decided by the environment (\<open>writable\<close>).
\<close>

datatype db_file = NoFile | Unparseable | Json db | JsonOther json_other

datatype error = IOError | SyntaxError | TypeError | SaveFailed | WorksheetExists

definition stringify :: "loaded \<Rightarrow> db_file" where
  "stringify data = (case data of Document d \<Rightarrow> Json d | Other v \<Rightarrow> JsonOther v)"

definition writeFileSync :: "bool \<Rightarrow> loaded \<Rightarrow> error + db_file" where
  "writeFileSync writable data = (if writable then Inr (stringify data) else Inl IOError)"

definition readFileSync_parse :: "db_file \<Rightarrow> error + loaded" where
  "readFileSync_parse f =
     (case f of
        NoFile \<Rightarrow> Inl IOError
      | Unparseable \<Rightarrow> Inl SyntaxError
      | Json d \<Rightarrow> Inr (Document d)
      | JsonOther v \<Rightarrow> Inr (Other v))"

text \<open>\<open>loadDb\<close>: every exception of the body is caught and answered by the default structure.\<close>

definition loadDb :: "bool \<Rightarrow> db_file \<Rightarrow> loaded \<times> db_file" where
  "loadDb writable f =
     (case f of
        NoFile \<Rightarrow>
          (case writeFileSync writable (Document initialDb) of
             Inr f' \<Rightarrow> (Document initialDb, f')
           | Inl e \<Rightarrow> (Document \<lparr>users = Some Map.empty, attendance = Some []\<rparr>, f))
      | _ \<Rightarrow>
          (case readFileSync_parse f of
             Inr data \<Rightarrow> (data, f)
           | Inl e \<Rightarrow> (Document \<lparr>users = Some Map.empty, attendance = Some []\<rparr>, f)))"

definition saveDb :: "bool \<Rightarrow> loaded \<Rightarrow> error + db_file" where
  "saveDb writable data =
     (case writeFileSync writable data of Inr f \<Rightarrow> Inr f | Inl e \<Rightarrow> Inl SaveFailed)"

text \<open>
  \<open>addAttendance\<close>: \<open>db.attendance.push(record)\<close> raises a TypeError when the value
  loaded has no attendance list; every exception is rethrown.
\<close>

definition addAttendance :: "bool \<Rightarrow> att_record \<Rightarrow> db_file \<Rightarrow> (error + unit) \<times> db_file" where
  "addAttendance writable record f =
     (case loadDb writable f of
        (Document d, f1) \<Rightarrow>
          (case attendance d of
             None \<Rightarrow> (Inl TypeError, f1)
           | Some recs \<Rightarrow>
               (case saveDb writable (Document (d\<lparr>attendance := Some (recs @ [record])\<rparr>)) of
                  Inl e \<Rightarrow> (Inl e, f1)
                | Inr f2 \<Rightarrow> (Inr (), f2)))
      | (Other v, f1) \<Rightarrow> (Inl TypeError, f1))"

text \<open>\<open>getAttendanceForStudent\<close>: an exception is caught and answered by the empty list.\<close>

definition getAttendanceForStudent :: "bool \<Rightarrow> string \<Rightarrow> db_file \<Rightarrow> att_record list \<times> db_file" where
  "getAttendanceForStudent writable studentId f =
     (case loadDb writable f of
        (Document d, f1) \<Rightarrow>
          (case attendance d of
             None \<Rightarrow> ([], f1)
           | Some recs \<Rightarrow> (filter (\<lambda>record. student_id record = studentId) recs, f1))
      | (Other v, f1) \<Rightarrow> ([], f1))"

text \<open>
  The assignment \<open>users[studentId] = entry\<close>. For the property name \<open>__proto__\<close>, unless
  the object has an own property of that name (as \<open>JSON.parse\<close> creates one for such a
  key), the assignment sets the prototype of the object and stores no property.
\<close>

definition assign_entry :: "(string \<rightharpoonup> user_entry) \<Rightarrow> string \<Rightarrow> user_entry \<Rightarrow> (string \<rightharpoonup> user_entry)" where
  "assign_entry us studentId entry =
     (if studentId = ''__proto__'' \<and> us studentId = None then us else us(studentId \<mapsto> entry))"

text \<open>
  \<open>setExpectedIp\<close>: on \<open>null\<close> the test of \<open>db.users\<close> raises; on a number, string or
  boolean the assignment of an empty users object is ignored and the assignment of the
  entry raises; on an array both assignments are made and the array is saved as it was.
\<close>

definition setExpectedIp :: "bool \<Rightarrow> instant \<Rightarrow> string \<Rightarrow> string \<Rightarrow> db_file \<Rightarrow> (error + unit) \<times> db_file" where
  "setExpectedIp writable now studentId ip f =
     (case loadDb writable f of
        (Document d, f1) \<Rightarrow>
          (let us = (case users d of None \<Rightarrow> Map.empty | Some m \<Rightarrow> m);
               d' = d\<lparr>users := Some (assign_entry us studentId
                                       \<lparr>expectedIp = ip, updatedAt = toISOString now\<rparr>)\<rparr>
           in case saveDb writable (Document d') of
                Inl e \<Rightarrow> (Inl e, f1)
              | Inr f2 \<Rightarrow> (Inr (), f2))
      | (Other JsonArray, f1) \<Rightarrow>
          (case saveDb writable (Other JsonArray) of
             Inl e \<Rightarrow> (Inl e, f1)
           | Inr f2 \<Rightarrow> (Inr (), f2))
      | (Other v, f1) \<Rightarrow> (Inl TypeError, f1))"

text \<open>\<open>getExpectedIp\<close> and \<open>getAllAttendance\<close>: an exception is caught and answered by
  \<open>null\<close> and by the empty list.\<close>

definition getExpectedIp :: "bool \<Rightarrow> string \<Rightarrow> db_file \<Rightarrow> string option \<times> db_file" where
  "getExpectedIp writable studentId f =
     (case loadDb writable f of
        (Document d, f1) \<Rightarrow>
          (case users d of
             None \<Rightarrow> (None, f1)
           | Some m \<Rightarrow>
               (case m studentId of
                  None \<Rightarrow> (None, f1)
                | Some u \<Rightarrow> (if expectedIp u = [] then None else Some (expectedIp u), f1)))
      | (Other v, f1) \<Rightarrow> (None, f1))"

definition getAllAttendance :: "bool \<Rightarrow> db_file \<Rightarrow> att_record list \<times> db_file" where
  "getAllAttendance writable f =
     (case loadDb writable f of
        (Document d, f1) \<Rightarrow> (case attendance d of None \<Rightarrow> ([], f1) | Some recs \<Rightarrow> (recs, f1))
      | (Other v, f1) \<Rightarrow> ([], f1))"

section \<open>Tabular store (attendance.xlsx through ExcelJS)\<close>

text \<open>
  A workbook is the list of its named worksheets, a worksheet the list of its rows (row
  number \<open>n\<close> is the \<open>n\<close>-th element), a row the list of its cell values from column 1;
  an empty cell is the empty string. The file is absent, unreadable (\<open>readFile\<close> rejects),
  or holds the workbook that was written to it. Cell styling is left out.
\<close>

type_synonym row = "string list"
type_synonym worksheet = "row list"
type_synonym workbook = "(string \<times> worksheet) list"

datatype xlsx_file = NoXlsx | Unreadable | Xlsx workbook

text \<open>\<open>getWorksheet\<close> finds a worksheet by its exact name.\<close>

definition getWorksheet :: "workbook \<Rightarrow> string \<Rightarrow> worksheet option" where
  "getWorksheet wb name = map_of wb name"

fun putWorksheet :: "string \<Rightarrow> worksheet \<Rightarrow> workbook \<Rightarrow> workbook" where
  "putWorksheet name ws [] = []"
| "putWorksheet name ws ((n, w) # rest) =
     (if n = name then (n, ws) # rest else (n, w) # putWorksheet name ws rest)"

text \<open>
  \<open>addWorksheet\<close> refuses a name that a worksheet of the workbook already has when letter
  case is ignored (the letters A to Z are the only ones whose lower case is an ASCII
  letter of the name used here).
\<close>

definition toLowerCase :: "string \<Rightarrow> string" where
  "toLowerCase s =
     map (\<lambda>c. if 65 \<le> (of_char c :: nat) \<and> (of_char c :: nat) \<le> 90
              then char_of ((of_char c :: nat) + 32) else c) s"

definition name_exists :: "workbook \<Rightarrow> string \<Rightarrow> bool" where
  "name_exists wb name = list_ex (\<lambda>(n, ws). toLowerCase n = toLowerCase name) wb"

definition addWorksheet :: "workbook \<Rightarrow> string \<Rightarrow> worksheet \<Rightarrow> error + workbook" where
  "addWorksheet wb name ws =
     (if name_exists wb name then Inl WorksheetExists else Inr (wb @ [(name, ws)]))"

definition header_row :: row where
  "header_row = [''ID'', ''Name'', ''Date'', ''Time'', ''IP Address'', ''Status'']"

section \<open>Server environment and state\<close>

text \<open>
  \<open>xlsx_text\<close> is the text that the Excel library returns on reading a cell that was
  written with the given text; the two differ, for one, where the text holds an escape
  \<open>_xHHHH_\<close> of the file format, which the library decodes on reading and does not
  produce on writing.
\<close>

record env =
  ALLOWED_IP :: "string option"
  ADMIN_TOKEN :: "string option"
  db_writable :: bool
  xlsx_writable :: bool
  toLocaleTimeString :: "instant \<Rightarrow> string"
  Date_parse :: "string \<Rightarrow> instant option"
  xlsx_text :: "string \<Rightarrow> string"

text \<open>The three readings of the clock (\<open>new Date()\<close>) that one submission takes.\<close>

record clock =
  now_check :: instant
  now_excel :: instant
  now_json :: instant

record store =
  db_json :: db_file
  attendance_xlsx :: xlsx_file

text \<open>\<open>workbook.xlsx.readFile\<close> (\<open>None\<close> when it rejects) and \<open>workbook.xlsx.writeFile\<close>.\<close>

definition readFile :: "env \<Rightarrow> xlsx_file \<Rightarrow> workbook option" where
  "readFile e f =
     (case f of
        Xlsx wb \<Rightarrow> Some (map (\<lambda>(n, ws). (n, map (map (xlsx_text e)) ws)) wb)
      | _ \<Rightarrow> None)"

definition writeFile :: "env \<Rightarrow> workbook \<Rightarrow> error + xlsx_file" where
  "writeFile e wb = (if xlsx_writable e then Inr (Xlsx wb) else Inl IOError)"

section \<open>POST /api/attendance/mark\<close>

text \<open>
  Saving to Excel: the worksheet is loaded, or created with its header row when the file
  cannot be read or has no worksheet named Attendance (\<open>load_worksheet\<close> is the inner
  \<open>try\<close>, \<open>None\<close> its \<open>catch\<close> branch, in which \<open>addWorksheet\<close> may raise in its turn);
  the data row is added and the workbook written back. \<open>Inl\<close> is the exception that the
  handler catches and logs.
\<close>

definition load_worksheet :: "env \<Rightarrow> xlsx_file \<Rightarrow> (workbook \<times> worksheet) option" where
  "load_worksheet e f =
     (case readFile e f of
        Some wb \<Rightarrow>
          (case getWorksheet wb ''Attendance'' of
             Some ws \<Rightarrow> Some (wb, ws)
           | None \<Rightarrow> None)
      | None \<Rightarrow> None)"

definition excel_save ::
  "env \<Rightarrow> instant \<Rightarrow> string \<Rightarrow> string \<Rightarrow> string \<Rightarrow> string \<Rightarrow> xlsx_file \<Rightarrow> error + xlsx_file" where
  "excel_save e t sid sname ip st f =
     (let dateStr = takeWhile (\<lambda>c. c \<noteq> CHR ''T'') (toISOString t);
          timeStr = toLocaleTimeString e t;
          dataRow = [sid, sname, dateStr, timeStr, ip, st]
      in case load_worksheet e f of
           Some (wb, ws) \<Rightarrow> writeFile e (putWorksheet ''Attendance'' (ws @ [dataRow]) wb)
         | None \<Rightarrow>
             (case addWorksheet (case readFile e f of Some wb \<Rightarrow> wb | None \<Rightarrow> [])
                     ''Attendance'' [header_row, dataRow] of
                Inl err \<Rightarrow> Inl err
              | Inr wb' \<Rightarrow> writeFile e wb'))"

record mark_ok =
  res_message :: string
  res_status :: string
  res_clientIp :: string
  res_expectedIp :: "string option"
  res_isPrivate :: bool
  res_proxy :: bool
  res_reason :: string

text \<open>
  The responses of the handler: \<open>Failure code message\<close> is
  \<open>res.status(code).json({message, success: false})\<close>; \<open>AlreadyMarked message\<close> is the reply
  \<open>{message, success: true, alreadyMarked: true, status: 'Present'}\<close>; \<open>Marked\<close> is the
  success reply, whose fields are exactly those of \<open>mark_ok\<close> beside \<open>success: true\<close>.
\<close>

datatype response = Failure nat string | AlreadyMarked string | Marked mark_ok

text \<open>The record handed to \<open>db.addAttendance\<close> and the body of the success reply.\<close>

definition new_record ::
  "clock \<Rightarrow> string \<Rightarrow> string \<Rightarrow> string \<Rightarrow> string \<Rightarrow> bool \<Rightarrow> bool \<Rightarrow> string \<Rightarrow> string \<Rightarrow> att_record" where
  "new_record clk sid sname ip allowed priv prox st rsn =
     \<lparr>timestamp = toISOString (now_json clk), student_id = sid, student_name = sname,
      status = st, clientIp = ip,
      allowedIp = (if allowed = [] then None else Some allowed),
      isPrivate = priv, proxy = prox, reason = rsn\<rparr>"

definition success_reply ::
  "string \<Rightarrow> string \<Rightarrow> bool \<Rightarrow> bool \<Rightarrow> string \<Rightarrow> string \<Rightarrow> mark_ok" where
  "success_reply ip allowed priv prox st rsn =
     \<lparr>res_message =
        (if st = ''Present''
         then ''Successfully marked Present (IP matched: '' @ ip @ '').''
         else ''Marked Absent (IP '' @ ip @ '' does not match expected IP '' @
              (if allowed = [] then ''(none)'' else allowed) @ '').''),
      res_status = st, res_clientIp = ip,
      res_expectedIp = (if allowed = [] then None else Some allowed),
      res_isPrivate = priv, res_proxy = prox, res_reason = rsn\<rparr>"

text \<open>
  The save of a submission that is not suppressed: Excel first (a failure is caught and
  logged), then the JSON database (a failure is answered with status 500), then the
  success reply.
\<close>

definition persist ::
  "env \<Rightarrow> clock \<Rightarrow> string \<Rightarrow> string \<Rightarrow> string \<Rightarrow> string \<Rightarrow> bool \<Rightarrow> bool \<Rightarrow> string \<Rightarrow> string \<Rightarrow> store
     \<Rightarrow> response \<times> store" where
  "persist e clk sid sname ip allowed priv prox st rsn s =
     (let x1 = (case excel_save e (now_excel clk) sid sname ip st (attendance_xlsx s) of
                  Inr x \<Rightarrow> x
                | Inl err \<Rightarrow> attendance_xlsx s)
      in case addAttendance (db_writable e)
                (new_record clk sid sname ip allowed priv prox st rsn) (db_json s) of
           (Inl err, f1) \<Rightarrow>
             (Failure 500 ''Server error saving attendance to database.'',
              \<lparr>db_json = f1, attendance_xlsx = x1\<rparr>)
         | (Inr u, f1) \<Rightarrow>
             (Marked (success_reply ip allowed priv prox st rsn),
              \<lparr>db_json = f1, attendance_xlsx = x1\<rparr>))"

text \<open>
  The stages of the handler before the save: the expected address of the student (the
  registry entry, else the process-wide default, else empty) with the classification of
  the client address, and the search of the student's history for a Present record of
  the current UTC date. Neither stage can raise: the database functions catch their own
  exceptions.
\<close>

definition expected_rules ::
  "env \<Rightarrow> request \<Rightarrow> string \<Rightarrow> string \<Rightarrow> db_file \<Rightarrow> (string \<times> bool \<times> bool) \<times> db_file" where
  "expected_rules e req sid ip f =
     (case getExpectedIp (db_writable e) sid f of
        (expected, f1) \<Rightarrow>
          ((orEmpty (if truthy expected then expected else ALLOWED_IP e),
            isPrivateIp ip, possibleProxy req), f1))"

definition alreadyMarkedPresent ::
  "env \<Rightarrow> clock \<Rightarrow> string \<Rightarrow> db_file \<Rightarrow> att_record option \<times> db_file" where
  "alreadyMarkedPresent e clk sid f =
     (let today = take 10 (toISOString (now_check clk))
      in case getAttendanceForStudent (db_writable e) sid f of
           (attendanceToday, f2) \<Rightarrow>
             (find (\<lambda>record. take 10 (timestamp record) = today \<and>
                              status record = ''Present'') attendanceToday, f2))"

definition mark :: "env \<Rightarrow> clock \<Rightarrow> request \<Rightarrow> store \<Rightarrow> response \<times> store" where
  "mark e clk req s =
     (if \<not> truthy (body_student_id req) \<or> \<not> truthy (body_student_name req)
      then (Failure 400 ''Student ID and name are required.'', s)
      else
        (let sid = orEmpty (body_student_id req);
             sname = orEmpty (body_student_name req);
             ip = extractClientIp req
         in if ip = [] then (Failure 400 ''Could not determine your IP address.'', s)
            else
              (case expected_rules e req sid ip (db_json s) of
                 ((allowed, priv, prox), f1) \<Rightarrow>
                   (let st = fst (attendance_logic ip priv allowed);
                        rsn = snd (attendance_logic ip priv allowed)
                    in case alreadyMarkedPresent e clk sid f1 of
                         (Some found, f2) \<Rightarrow>
                           (if st = ''Present''
                            then (AlreadyMarked (''Already marked present today ('' @
                                                  timestamp found @ '').''),
                                  s\<lparr>db_json := f2\<rparr>)
                            else persist e clk sid sname ip allowed priv prox st rsn
                                   (s\<lparr>db_json := f2\<rparr>))
                       | (None, f2) \<Rightarrow>
                           persist e clk sid sname ip allowed priv prox st rsn
                             (s\<lparr>db_json := f2\<rparr>)))))"

section \<open>GET /api/attendance/records\<close>

record report_row =
  row_id :: string
  row_name :: string
  row_date :: string
  row_time :: string
  row_ip :: string
  row_status :: string

text \<open>\<open>values[k] ? String(values[k]).trim() : ''\<close>, with \<open>values\<close> indexed from 1.\<close>

definition cell_text :: "row \<Rightarrow> nat \<Rightarrow> string" where
  "cell_text values k =
     (let v = (if 1 \<le> k \<and> k \<le> length values then values ! (k - 1) else [])
      in if v = [] then [] else trim v)"

definition parse_row :: "row \<Rightarrow> report_row option" where
  "parse_row values =
     (let i = cell_text values 1; n = cell_text values 2; d = cell_text values 3;
          t = cell_text values 4; a = cell_text values 5; st = cell_text values 6
      in if i \<noteq> [] \<or> n \<noteq> []
         then Some \<lparr>row_id = i, row_name = n, row_date = d, row_time = t, row_ip = a,
                    row_status = st\<rparr>
         else None)"

text \<open>\<open>sheet.eachRow\<close> with row 1 skipped as the header.\<close>

definition read_sheet :: "worksheet \<Rightarrow> report_row list" where
  "read_sheet sheet = List.map_filter parse_row (drop 1 sheet)"

definition fallback_row :: "env \<Rightarrow> att_record \<Rightarrow> report_row" where
  "fallback_row e record =
     (let dt = (case Date_parse e (timestamp record) of
                  Some t \<Rightarrow>
                    (takeWhile (\<lambda>c. c \<noteq> CHR ''T'') (toISOString t), toLocaleTimeString e t)
                | None \<Rightarrow> ([], []))
      in \<lparr>row_id = student_id record, row_name = student_name record, row_date = fst dt,
          row_time = snd dt, row_ip = clientIp record, row_status = status record\<rparr>)"

text \<open>
  The body of the handler after the token check: the Excel file is read when it exists,
  from the worksheet named Attendance or else the first one; the JSON database is used
  only in the \<open>catch\<close> branch, when reading the file raises.
\<close>

definition report_sheet :: "workbook \<Rightarrow> worksheet option" where
  "report_sheet wb =
     (case getWorksheet wb ''Attendance'' of
        Some sheet \<Rightarrow> Some sheet
      | None \<Rightarrow> (case wb of [] \<Rightarrow> None | (n, sheet) # rest \<Rightarrow> Some sheet))"

definition read_records :: "env \<Rightarrow> store \<Rightarrow> report_row list \<times> store" where
  "read_records e s =
     (case attendance_xlsx s of
        NoXlsx \<Rightarrow> ([], s)
      | _ \<Rightarrow>
          (case readFile e (attendance_xlsx s) of
             None \<Rightarrow>
               (case getAllAttendance (db_writable e) (db_json s) of
                  (recs, f1) \<Rightarrow> (map (fallback_row e) recs, s\<lparr>db_json := f1\<rparr>))
           | Some wb \<Rightarrow>
               (case report_sheet wb of
                  None \<Rightarrow> ([], s)
                | Some sheet \<Rightarrow> (read_sheet sheet, s))))"

datatype records_response = Unauthorized | RecordsJson "report_row list"

definition records_handler :: "env \<Rightarrow> request \<Rightarrow> store \<Rightarrow> records_response \<times> store" where
  "records_handler e req s =
     (let token = orEmpty (authorization req)
      in if \<not> truthy (ADMIN_TOKEN e) \<or> Some token \<noteq> ADMIN_TOKEN e then (Unauthorized, s)
         else (case read_records e s of (records, s') \<Rightarrow> (RecordsJson records, s')))"

section \<open>Example data\<close>

text \<open>
  A server in a zone five and a half hours east of UTC, with the default expected address
  203.0.113.9, and a student U002 who is marked Present on 2026-02-11 (UTC). Of the
  texts of the examples, the Excel library returns all but one as they were written.
\<close>

definition ex_Date_parse :: "string \<Rightarrow> instant option" where
  "ex_Date_parse str = (if str = ''2026-02-11T23:30:00.002Z'' then Some 1770852600002 else None)"

definition ex_xlsx_text :: "string \<Rightarrow> string" where
  "ex_xlsx_text str = (if str = ''A_x0041_da'' then ''AAda'' else str)"

definition ex_env :: env where
  "ex_env = \<lparr>ALLOWED_IP = Some ''203.0.113.9'', ADMIN_TOKEN = Some ''admin'',
             db_writable = True, xlsx_writable = True,
             toLocaleTimeString = fixedOffsetTimeString 330, Date_parse = ex_Date_parse,
             xlsx_text = ex_xlsx_text\<rparr>"

definition ex_clock :: clock where
  "ex_clock = \<lparr>now_check = 1770852600000, now_excel = 1770852600001,
               now_json = 1770852600002\<rparr>"

definition ex_request :: request where
  "ex_request = \<lparr>x_forwarded_for = None, socket_remoteAddress = Some ''::ffff:203.0.113.9'',
                 connection_remoteAddress = None, body_student_id = Some ''U002'',
                 body_student_name = Some ''Ada'', authorization = None\<rparr>"

definition ex_record :: att_record where
  "ex_record = \<lparr>timestamp = ''2026-02-11T23:30:00.002Z'', student_id = ''U002'',
                student_name = ''Ada'', status = ''Present'', clientIp = ''203.0.113.9'',
                allowedIp = Some ''203.0.113.9'', isPrivate = False, proxy = False,
                reason = ''ip_matched''\<rparr>"

definition ex_db :: db where
  "ex_db = \<lparr>users = Some Map.empty, attendance = Some [ex_record]\<rparr>"



definition ex_store :: store where
  "ex_store = \<lparr>db_json = Json ex_db, attendance_xlsx = NoXlsx\<rparr>"

definition ex_private_request :: request where
  "ex_private_request = ex_request\<lparr>socket_remoteAddress := Some ''10.0.0.5''\<rparr>"



definition ex_empty_store :: store where
  "ex_empty_store = \<lparr>db_json = NoFile, attendance_xlsx = NoXlsx\<rparr>"




text \<open>
  Characters that are not the letter T that ends the date part of an ISO string, and that
  neither begin nor end the encoding of a white space character.
\<close>

definition plain_char :: "char \<Rightarrow> bool" where
  "plain_char c =
     (c \<noteq> CHR ''T'' \<and> c \<notin> set (map hd white_space) \<and> c \<notin> set (map hd (map rev white_space)))"

definition ex_clash_file :: xlsx_file where
  "ex_clash_file = Xlsx [(''attendance'',
     [[''ID'', ''Name'', ''Date'', ''Time'', ''IP Address'', ''Status'']])]"


definition ex_unreadable_store :: store where
  "ex_unreadable_store = \<lparr>db_json = Json ex_db, attendance_xlsx = Unreadable\<rparr>"

section \<open>Strings\<close>

lemma option_string_simps:
  "truthy None = False" "truthy (Some str) = (str \<noteq> [])"
  "orEmpty None = []" "orEmpty (Some str) = str"
  by (simp_all add: truthy_def orEmpty_def)

lemma find_SomeD: "find P xs = Some r \<Longrightarrow> r \<in> set xs \<and> P r"
  by (induction xs) (auto split: if_splits)





section \<open>The document store\<close>

lemma iso_epoch: "toISOString 0 = ''1970-01-01T00:00:00.000Z''"
  by code_simp

lemma loadDb_cases:
  "loadDb w NoFile = (Document initialDb, if w then Json initialDb else NoFile)"
  "loadDb w Unparseable = (Document initialDb, Unparseable)"
  "loadDb w (Json d) = (Document d, Json d)"
  "loadDb w (JsonOther v) = (Other v, JsonOther v)"
  by (simp_all add: loadDb_def writeFileSync_def readFileSync_parse_def initialDb_def
        stringify_def)

text \<open>
  C8. Loading the document store never fails: \<open>loadDb\<close> returns a value for every state
  of the backing file, and when the file is missing or its content is rejected by the
  parser (the read raises inside the body), the value returned is the empty structure,
  an empty users map and an empty attendance list. This holds whether or not the attempt
  to create the missing file succeeds. Content that parses is returned as it is.
\<close>

theorem loadDb_never_fails:
  "fst (loadDb w NoFile) = Document \<lparr>users = Some Map.empty, attendance = Some []\<rparr> \<and>
   fst (loadDb w Unparseable) = Document \<lparr>users = Some Map.empty, attendance = Some []\<rparr> \<and>
   readFileSync_parse Unparseable = Inl SyntaxError \<and>
   snd (loadDb w Unparseable) = Unparseable \<and>
   snd (loadDb w NoFile) =
     (if w then Json \<lparr>users = Some Map.empty, attendance = Some []\<rparr> else NoFile) \<and>
   loadDb w (Json d) = (Document d, Json d) \<and>
   loadDb w (JsonOther v) = (Other v, JsonOther v)"
  by (simp add: loadDb_cases initialDb_def readFileSync_parse_def)

theorem loadDb_never_fails_witness:
  "fst (loadDb False NoFile) = Document \<lparr>users = Some Map.empty, attendance = Some []\<rparr> \<and>
   snd (loadDb False NoFile) = NoFile \<and>
   snd (loadDb True NoFile) = Json \<lparr>users = Some Map.empty, attendance = Some []\<rparr>"
  using loadDb_never_fails [of False ex_db JsonNull] loadDb_never_fails [of True ex_db JsonNull]
  by simp

lemma setExpectedIp_Document:
  assumes "fst (loadDb w f) = Document d"
  shows "setExpectedIp w now sid ip f =
     (if w
      then (Inr (), Json (d\<lparr>users := Some (assign_entry
              (case users d of None \<Rightarrow> Map.empty | Some m \<Rightarrow> m) sid
              \<lparr>expectedIp = ip, updatedAt = toISOString now\<rparr>)\<rparr>))
      else (Inl SaveFailed, f))"
  using assms
  by (cases f)
     (auto simp: setExpectedIp_def loadDb_cases saveDb_def writeFileSync_def stringify_def
        Let_def)

lemma setExpectedIp_Other:
  assumes "fst (loadDb w f) = Other v"
  shows "setExpectedIp w now sid ip f =
     (if v = JsonArray then (if w then (Inr (), f) else (Inl SaveFailed, f))
      else (Inl TypeError, f))"
  using assms
  by (cases f; cases v)
     (auto simp: setExpectedIp_def loadDb_cases saveDb_def writeFileSync_def stringify_def
        split: if_splits)

lemma addAttendance_Document:
  assumes "fst (loadDb w f) = Document d"
  shows "addAttendance w record f =
     (case attendance d of
        None \<Rightarrow> (Inl TypeError, snd (loadDb w f))
      | Some recs \<Rightarrow>
          (if w then (Inr (), Json (d\<lparr>attendance := Some (recs @ [record])\<rparr>))
           else (Inl SaveFailed, f)))"
  using assms
  by (cases f)
     (auto simp: addAttendance_def loadDb_cases saveDb_def writeFileSync_def stringify_def
        split: option.splits)

lemma addAttendance_Other:
  assumes "fst (loadDb w f) = Other v"
  shows "addAttendance w record f = (Inl TypeError, f)"
  using assms
  by (cases f) (auto simp: addAttendance_def loadDb_cases split: if_splits)

lemma loadDb_unwritable: "snd (loadDb False f) = f"
  by (cases f) (simp_all add: loadDb_cases)

text \<open>
  C10. Frame property of the document store. When \<open>setExpectedIp\<close> returns on a document,
  the file holds a document with the same attendance list, in whose users map the entry
  of every other student is as before (absent, if there was no users map) and the entry
  of the student is the new expected address and time of update alone; the one exception
  is the student id \<open>__proto__\<close>, for which no entry is stored unless one existed. When
  it returns on an array, the file is as it was. When \<open>addAttendance\<close> returns, the file
  held a document with an attendance list and now holds the same document with the
  record appended as the last element of that list. With a writable file
  \<open>setExpectedIp\<close> returns on every document, and \<open>addAttendance\<close> on every document that
  has an attendance list; when the file cannot be written both raise and leave the file
  as it was.
\<close>

theorem document_store_frame:
  "(setExpectedIp w now sid ip f = (Inr (), fa) \<and> fst (loadDb w f) = Document d \<longrightarrow>
      (\<exists>d' m'. fa = Json d' \<and> attendance d' = attendance d \<and> users d' = Some m' \<and>
         (\<forall>k. k \<noteq> sid \<longrightarrow> m' k = (case users d of None \<Rightarrow> None | Some m \<Rightarrow> m k)) \<and>
         (sid \<noteq> ''__proto__'' \<longrightarrow>
            m' sid = Some \<lparr>expectedIp = ip, updatedAt = toISOString now\<rparr>) \<and>
         (sid = ''__proto__'' \<longrightarrow>
            m' sid = (case (case users d of None \<Rightarrow> None | Some m \<Rightarrow> m sid) of
                        None \<Rightarrow> None
                      | Some old \<Rightarrow> Some \<lparr>expectedIp = ip, updatedAt = toISOString now\<rparr>)))) \<and>
   (setExpectedIp w now sid ip f = (Inr (), fa) \<and> fst (loadDb w f) = Other v \<longrightarrow>
      v = JsonArray \<and> fa = f) \<and>
   (addAttendance w r f = (Inr (), fb) \<longrightarrow>
      (\<exists>d0 recs. fst (loadDb w f) = Document d0 \<and> attendance d0 = Some recs \<and>
                 fb = Json (d0\<lparr>attendance := Some (recs @ [r])\<rparr>))) \<and>
   (w \<and> fst (loadDb w f) = Document d \<longrightarrow> fst (setExpectedIp w now sid ip f) = Inr ()) \<and>
   (w \<and> fst (loadDb w f) = Document d \<and> attendance d \<noteq> None \<longrightarrow>
      fst (addAttendance w r f) = Inr ()) \<and>
   (\<not> w \<longrightarrow> fst (setExpectedIp w now sid ip f) \<noteq> Inr () \<and>
           snd (setExpectedIp w now sid ip f) = f \<and>
           fst (addAttendance w r f) \<noteq> Inr () \<and> snd (addAttendance w r f) = f)"
proof -
  have s1: "\<exists>d' m'. fa = Json d' \<and> attendance d' = attendance d \<and> users d' = Some m' \<and>
         (\<forall>k. k \<noteq> sid \<longrightarrow> m' k = (case users d of None \<Rightarrow> None | Some m \<Rightarrow> m k)) \<and>
         (sid \<noteq> ''__proto__'' \<longrightarrow>
            m' sid = Some \<lparr>expectedIp = ip, updatedAt = toISOString now\<rparr>) \<and>
         (sid = ''__proto__'' \<longrightarrow>
            m' sid = (case (case users d of None \<Rightarrow> None | Some m \<Rightarrow> m sid) of
                        None \<Rightarrow> None
                      | Some old \<Rightarrow> Some \<lparr>expectedIp = ip, updatedAt = toISOString now\<rparr>))"
    if "setExpectedIp w now sid ip f = (Inr (), fa)" "fst (loadDb w f) = Document d"
    using that
    by (cases "users d")
       (auto simp: setExpectedIp_Document assign_entry_def split: if_splits option.splits)
  have s2: "v = JsonArray \<and> fa = f"
    if "setExpectedIp w now sid ip f = (Inr (), fa)" "fst (loadDb w f) = Other v"
    using that by (auto simp: setExpectedIp_Other split: if_splits)
  have a1: "\<exists>d0 recs. fst (loadDb w f) = Document d0 \<and> attendance d0 = Some recs \<and>
                 fb = Json (d0\<lparr>attendance := Some (recs @ [r])\<rparr>)"
    if r: "addAttendance w r f = (Inr (), fb)"
  proof (cases "fst (loadDb w f)")
    case (Document d0)
    with r show ?thesis
      by (auto simp: addAttendance_Document split: option.splits if_splits)
  next
    case (Other v0)
    with r show ?thesis by (simp add: addAttendance_Other)
  qed
  have t1: "fst (setExpectedIp w now sid ip f) = Inr ()"
    if "w" "fst (loadDb w f) = Document d"
    using that by (simp add: setExpectedIp_Document)
  have t2: "fst (addAttendance w r f) = Inr ()"
    if "w" "fst (loadDb w f) = Document d" "attendance d \<noteq> None"
    using that by (auto simp: addAttendance_Document)
  have u: "fst (setExpectedIp w now sid ip f) \<noteq> Inr () \<and>
           snd (setExpectedIp w now sid ip f) = f \<and>
           fst (addAttendance w r f) \<noteq> Inr () \<and> snd (addAttendance w r f) = f"
    if "\<not> w"
  proof (cases "fst (loadDb w f)")
    case (Document d0)
    with that show ?thesis
      using loadDb_unwritable [of f]
      by (auto simp: setExpectedIp_Document addAttendance_Document split: option.splits)
  next
    case (Other v0)
    with that show ?thesis
      by (auto simp: setExpectedIp_Other addAttendance_Other)
  qed
  from s1 s2 a1 t1 t2 u show ?thesis by blast
qed

theorem document_store_frame_witness:
  "setExpectedIp True 0 ''U002'' ''198.51.100.7'' (Json ex_db) =
     (Inr (), Json (ex_db\<lparr>users := Some [''U002'' \<mapsto>
        \<lparr>expectedIp = ''198.51.100.7'', updatedAt = ''1970-01-01T00:00:00.000Z''\<rparr>]\<rparr>)) \<and>
   setExpectedIp True 0 ''__proto__'' ''198.51.100.7'' (Json ex_db) = (Inr (), Json ex_db) \<and>
   addAttendance True ex_record (Json ex_db) =
     (Inr (), Json (ex_db\<lparr>attendance := Some [ex_record, ex_record]\<rparr>)) \<and>
   fst (setExpectedIp True 0 ''U002'' ''198.51.100.7'' (JsonOther JsonNull)) = Inl TypeError"
proof -
  have l: "fst (loadDb True (Json ex_db)) = Document ex_db" by (simp add: loadDb_cases)
  have a: "setExpectedIp True 0 ''U002'' ''198.51.100.7'' (Json ex_db) =
     (Inr (), Json (ex_db\<lparr>users := Some [''U002'' \<mapsto>
        \<lparr>expectedIp = ''198.51.100.7'', updatedAt = ''1970-01-01T00:00:00.000Z''\<rparr>]\<rparr>))"
    unfolding setExpectedIp_Document [OF l]
    by (simp add: assign_entry_def ex_db_def iso_epoch)
  have p: "setExpectedIp True 0 ''__proto__'' ''198.51.100.7'' (Json ex_db) =
     (Inr (), Json ex_db)"
    unfolding setExpectedIp_Document [OF l]
    by (simp add: assign_entry_def ex_db_def)
  have b: "addAttendance True ex_record (Json ex_db) =
     (Inr (), Json (ex_db\<lparr>attendance := Some [ex_record, ex_record]\<rparr>))"
    unfolding addAttendance_Document [OF l]
    by (simp add: ex_db_def)
  have n: "fst (setExpectedIp True 0 ''U002'' ''198.51.100.7'' (JsonOther JsonNull)) =
      Inl TypeError"
    by (simp add: setExpectedIp_def loadDb_cases)
  show ?thesis
    using a p b n
      document_store_frame [where w = True and now = 0 and sid = "''U002''"
        and ip = "''198.51.100.7''" and f = "Json ex_db" and d = ex_db and v = JsonNull
        and r = ex_record
        and fa = "Json (ex_db\<lparr>users := Some [''U002'' \<mapsto>
          \<lparr>expectedIp = ''198.51.100.7'', updatedAt = ''1970-01-01T00:00:00.000Z''\<rparr>]\<rparr>)"
        and fb = "Json (ex_db\<lparr>attendance := Some [ex_record, ex_record]\<rparr>)"]
    by simp
qed

section \<open>The decision\<close>

lemma persist_cases:
  "persist e clk sid sname ip allowed priv prox st rsn s =
     ((case fst (addAttendance (db_writable e)
                   (new_record clk sid sname ip allowed priv prox st rsn) (db_json s)) of
         Inl err \<Rightarrow> Failure 500 ''Server error saving attendance to database.''
       | Inr u \<Rightarrow> Marked (success_reply ip allowed priv prox st rsn)),
      \<lparr>db_json = snd (addAttendance (db_writable e)
                        (new_record clk sid sname ip allowed priv prox st rsn) (db_json s)),
       attendance_xlsx =
         (case excel_save e (now_excel clk) sid sname ip st (attendance_xlsx s) of
            Inr x \<Rightarrow> x
          | Inl err \<Rightarrow> attendance_xlsx s)\<rparr>)"
proof -
  obtain r f where a: "addAttendance (db_writable e)
      (new_record clk sid sname ip allowed priv prox st rsn) (db_json s) = (r, f)"
    by (cases "addAttendance (db_writable e)
      (new_record clk sid sname ip allowed priv prox st rsn) (db_json s)")
  show ?thesis
    by (cases r) (simp_all add: persist_def a)
qed

lemma persist_Marked:
  "fst (persist e clk sid sname ip allowed priv prox st rsn s) = Marked b \<Longrightarrow>
     res_status b = st \<and> res_reason b = rsn \<and> res_clientIp b = ip \<and> res_isPrivate b = priv \<and>
     res_proxy b = prox \<and> orEmpty (res_expectedIp b) = allowed"
  by (auto simp: persist_cases success_reply_def orEmpty_def split: sum.splits)

lemma mark_Marked:
  assumes "fst (mark e clk req s) = Marked b"
  shows "res_clientIp b = extractClientIp req \<and>
     res_isPrivate b = isPrivateIp (extractClientIp req) \<and>
     (res_status b, res_reason b) =
        attendance_logic (extractClientIp req) (isPrivateIp (extractClientIp req))
          (orEmpty (res_expectedIp b))"
  using assms
  by (auto simp: mark_def Let_def expected_rules_def
        split: if_splits prod.splits option.splits dest!: persist_Marked)

text \<open>
  C2. The decision is a function of the observed address, its private classification and
  the expected address (empty when none is configured), taken in this order of priority:
  a private address gives Absent with reason \<open>private_ip\<close> whatever the expected address
  is, also when it equals the observed address; otherwise no expected address gives Absent
  with reason \<open>missing_expected_ip\<close>; otherwise an observed address equal to the expected
  one gives Present with reason \<open>ip_matched\<close>; otherwise Absent with reason
  \<open>ip_mismatch\<close>. Present occurs only with reason \<open>ip_matched\<close>. Every success reply of
  the handler carries the status and reason that this function gives for the extracted
  client address, its classification by \<open>isPrivateIp\<close> and the expected address reported.
\<close>

theorem decision_priority_order:
  "(priv \<longrightarrow> attendance_logic ip priv allowed = (''Absent'', ''private_ip'')) \<and>
   (\<not> priv \<and> allowed = [] \<longrightarrow>
      attendance_logic ip priv allowed = (''Absent'', ''missing_expected_ip'')) \<and>
   (\<not> priv \<and> allowed \<noteq> [] \<and> ip = allowed \<longrightarrow>
      attendance_logic ip priv allowed = (''Present'', ''ip_matched'')) \<and>
   (\<not> priv \<and> allowed \<noteq> [] \<and> ip \<noteq> allowed \<longrightarrow>
      attendance_logic ip priv allowed = (''Absent'', ''ip_mismatch'')) \<and>
   (fst (attendance_logic ip priv allowed) = ''Present'' \<longrightarrow>
      snd (attendance_logic ip priv allowed) = ''ip_matched'') \<and>
   (fst (mark e clk req s) = Marked b \<longrightarrow>
      res_clientIp b = extractClientIp req \<and>
      res_isPrivate b = isPrivateIp (extractClientIp req) \<and>
      (res_status b, res_reason b) =
         attendance_logic (extractClientIp req) (isPrivateIp (extractClientIp req))
           (orEmpty (res_expectedIp b)))"
  using mark_Marked [of e clk req s b] by (simp add: attendance_logic_def)

theorem decision_priority_order_witness:
  "attendance_logic ''10.0.0.5'' True ''10.0.0.5'' = (''Absent'', ''private_ip'') \<and>
   attendance_logic ''203.0.113.9'' False [] = (''Absent'', ''missing_expected_ip'') \<and>
   attendance_logic ''203.0.113.9'' False ''203.0.113.9'' = (''Present'', ''ip_matched'') \<and>
   attendance_logic ''203.0.113.9'' False ''198.51.100.7'' = (''Absent'', ''ip_mismatch'') \<and>
   fst (mark ex_env ex_clock ex_request \<lparr>db_json = NoFile, attendance_xlsx = NoXlsx\<rparr>) =
     Marked \<lparr>res_message = ''Successfully marked Present (IP matched: 203.0.113.9).'',
             res_status = ''Present'', res_clientIp = ''203.0.113.9'',
             res_expectedIp = Some ''203.0.113.9'', res_isPrivate = False,
             res_proxy = False, res_reason = ''ip_matched''\<rparr> \<and>
   extractClientIp ex_request = ''203.0.113.9'' \<and> \<not> isPrivateIp ''203.0.113.9''"
proof -
  have m: "fst (mark ex_env ex_clock ex_request \<lparr>db_json = NoFile, attendance_xlsx = NoXlsx\<rparr>) =
     Marked \<lparr>res_message = ''Successfully marked Present (IP matched: 203.0.113.9).'',
             res_status = ''Present'', res_clientIp = ''203.0.113.9'',
             res_expectedIp = Some ''203.0.113.9'', res_isPrivate = False,
             res_proxy = False, res_reason = ''ip_matched''\<rparr>"
    by code_simp
  have x: "extractClientIp ex_request = ''203.0.113.9''" by code_simp
  have p: "\<not> isPrivateIp ''203.0.113.9''" by code_simp
  let ?s = "\<lparr>db_json = NoFile, attendance_xlsx = NoXlsx\<rparr>"
  let ?b = "\<lparr>res_message = ''Successfully marked Present (IP matched: 203.0.113.9).'',
             res_status = ''Present'', res_clientIp = ''203.0.113.9'',
             res_expectedIp = Some ''203.0.113.9'', res_isPrivate = False,
             res_proxy = False, res_reason = ''ip_matched''\<rparr>"
  show ?thesis
    using m x p
      decision_priority_order [of True "''10.0.0.5''" "''10.0.0.5''" ex_env ex_clock ex_request ?s ?b]
      decision_priority_order [of False "''203.0.113.9''" "[]" ex_env ex_clock ex_request ?s ?b]
      decision_priority_order [of False "''203.0.113.9''" "''203.0.113.9''" ex_env ex_clock
        ex_request ?s ?b]
      decision_priority_order [of False "''203.0.113.9''" "''198.51.100.7''" ex_env ex_clock
        ex_request ?s ?b]
    by simp
qed

section \<open>Duplicate prevention\<close>

lemma iso_check: "toISOString 1770852600000 = ''2026-02-11T23:30:00.000Z''"
  by code_simp

lemma iso_json: "toISOString 1770852600002 = ''2026-02-11T23:30:00.002Z''"
  by code_simp

lemma ex_client_ip:
  "extractClientIp ex_request = ''203.0.113.9''"
  "extractClientIp ex_private_request = ''10.0.0.5''"
  by code_simp+

lemma ex_fields:
  "orEmpty (body_student_id ex_request) = ''U002''"
  "orEmpty (body_student_id ex_private_request) = ''U002''"
  "orEmpty (body_student_name ex_request) = ''Ada''"
  "orEmpty (body_student_name ex_private_request) = ''Ada''"
  "\<not> possibleProxy ex_request"
  "\<not> possibleProxy ex_private_request"
  by (simp_all add: ex_request_def ex_private_request_def orEmpty_def possibleProxy_def)

lemma ex_private: "\<not> isPrivateIp ''203.0.113.9''" "isPrivateIp ''10.0.0.5''"
  by code_simp+


lemma expected_rules_Json:
  "expected_rules e req sid ip (Json d) = ((a, p, x), f1) \<Longrightarrow> f1 = Json d \<and> p = isPrivateIp ip \<and> x = possibleProxy req"
  by (auto simp: expected_rules_def getExpectedIp_def loadDb_cases split: option.splits if_splits)

lemma alreadyMarkedPresent_Json:
  "attendance d = Some recs \<Longrightarrow>
   alreadyMarkedPresent e clk sid (Json d) =
     (find (\<lambda>r. take 10 (timestamp r) = take 10 (toISOString (now_check clk)) \<and>
                 status r = ''Present'') (filter (\<lambda>r. student_id r = sid) recs), Json d)"
  by (simp add: alreadyMarkedPresent_def getAttendanceForStudent_def loadDb_cases Let_def)

lemma attendance_logic_status:
  "fst (attendance_logic ip priv allowed) \<noteq> ''Present'' \<Longrightarrow> fst (attendance_logic ip priv allowed) = ''Absent''"
  by (simp add: attendance_logic_def split: if_splits)

lemma addAttendance_Json:
  "attendance d = Some recs \<Longrightarrow>
   addAttendance w r (Json d) =
     (if w then (Inr (), Json (d\<lparr>attendance := Some (recs @ [r])\<rparr>)) else (Inl SaveFailed, Json d))"
  by (simp add: addAttendance_def loadDb_cases saveDb_def writeFileSync_def stringify_def)

text \<open>
  C1. For a valid submission against a document store that holds the list \<open>recs\<close>: if
  the rules compute Present and the history holds a Present record of that student whose
  timestamp has the UTC date of the check, the handler answers \<open>alreadyMarked\<close> with the
  timestamp of such a record and leaves both stores as they were; if the rules compute
  Absent, the answer is never \<open>alreadyMarked\<close>, and (the database file being writable)
  the reply is the success reply with status Absent and the document store gains exactly
  one Absent record for the student at the end of its list, whatever the history holds.
\<close>

theorem duplicate_present_suppressed:
  assumes valid: "truthy (body_student_id req)" "truthy (body_student_name req)"
      and ip: "extractClientIp req \<noteq> []"
      and hist: "db_json s = Json d" "attendance d = Some recs"
      and rules: "expected_rules e req (orEmpty (body_student_id req)) (extractClientIp req)
                    (db_json s) = ((allowed, priv, prox), f1)"
  shows
   "(fst (attendance_logic (extractClientIp req) priv allowed) = ''Present'' \<and>
     (\<exists>r\<in>set recs. student_id r = orEmpty (body_student_id req) \<and> status r = ''Present'' \<and>
         take 10 (timestamp r) = take 10 (toISOString (now_check clk)))
     \<longrightarrow> (\<exists>r\<in>set recs. student_id r = orEmpty (body_student_id req) \<and> status r = ''Present'' \<and>
            take 10 (timestamp r) = take 10 (toISOString (now_check clk)) \<and>
            mark e clk req s =
              (AlreadyMarked (''Already marked present today ('' @ timestamp r @ '').''), s)))
    \<and>
    (fst (attendance_logic (extractClientIp req) priv allowed) \<noteq> ''Present''
     \<longrightarrow> (\<forall>m. fst (mark e clk req s) \<noteq> AlreadyMarked m) \<and>
          (db_writable e \<longrightarrow>
             (\<exists>b. fst (mark e clk req s) = Marked b \<and> res_status b = ''Absent'') \<and>
             db_json (snd (mark e clk req s)) =
               Json (d\<lparr>attendance := Some (recs @
                 [\<lparr>timestamp = toISOString (now_json clk),
                   student_id = orEmpty (body_student_id req),
                   student_name = orEmpty (body_student_name req),
                   status = ''Absent'', clientIp = extractClientIp req,
                   allowedIp = (if allowed = [] then None else Some allowed),
                   isPrivate = priv, proxy = prox,
                   reason = snd (attendance_logic (extractClientIp req) priv allowed)\<rparr>])\<rparr>)))"
proof -
  let ?sid = "orEmpty (body_student_id req)"
  let ?P = "\<lambda>r. take 10 (timestamp r) = take 10 (toISOString (now_check clk)) \<and> status r = ''Present''"
  let ?hist = "filter (\<lambda>r. student_id r = ?sid) recs"
  let ?st = "fst (attendance_logic (extractClientIp req) priv allowed)"
  from rules hist have f1: "f1 = Json d"
    using expected_rules_Json by metis
  have amp: "alreadyMarkedPresent e clk ?sid f1 = (find ?P ?hist, Json d)"
    unfolding f1 using hist(2) by (rule alreadyMarkedPresent_Json)
  have s: "s\<lparr>db_json := Json d\<rparr> = s" using hist(1) by simp
  have first: "\<exists>r\<in>set recs. student_id r = ?sid \<and> status r = ''Present'' \<and>
            take 10 (timestamp r) = take 10 (toISOString (now_check clk)) \<and>
            mark e clk req s =
              (AlreadyMarked (''Already marked present today ('' @ timestamp r @ '').''), s)"
    if pres: "?st = ''Present''"
      and ex: "\<exists>r\<in>set recs. student_id r = ?sid \<and> status r = ''Present'' \<and>
         take 10 (timestamp r) = take 10 (toISOString (now_check clk))"
  proof -
    from ex have "\<exists>r\<in>set ?hist. ?P r" by auto
    then have "find ?P ?hist \<noteq> None" by (simp add: find_None_iff)
    then obtain r where r: "find ?P ?hist = Some r" by auto
    then have mem: "r \<in> set ?hist" "?P r"
      using find_SomeD [of ?P ?hist r] by simp_all
    have "mark e clk req s =
        (AlreadyMarked (''Already marked present today ('' @ timestamp r @ '').''), s)"
      using valid ip rules amp r pres s by (simp add: mark_def Let_def)
    with mem show ?thesis by auto
  qed
  have second: "(\<forall>m. fst (mark e clk req s) \<noteq> AlreadyMarked m) \<and>
          (db_writable e \<longrightarrow>
             (\<exists>b. fst (mark e clk req s) = Marked b \<and> res_status b = ''Absent'') \<and>
             db_json (snd (mark e clk req s)) =
               Json (d\<lparr>attendance := Some (recs @
                 [\<lparr>timestamp = toISOString (now_json clk),
                   student_id = ?sid,
                   student_name = orEmpty (body_student_name req),
                   status = ''Absent'', clientIp = extractClientIp req,
                   allowedIp = (if allowed = [] then None else Some allowed),
                   isPrivate = priv, proxy = prox,
                   reason = snd (attendance_logic (extractClientIp req) priv allowed)\<rparr>])\<rparr>))"
    if abs: "?st \<noteq> ''Present''"
  proof -
    from abs have st: "?st = ''Absent''" by (rule attendance_logic_status)
    have m: "mark e clk req s =
        persist e clk ?sid (orEmpty (body_student_name req)) (extractClientIp req) allowed priv prox
          ?st (snd (attendance_logic (extractClientIp req) priv allowed)) s"
      using valid ip rules amp abs s
      by (cases "find ?P ?hist") (simp_all add: mark_def Let_def)
    show ?thesis
      unfolding m using hist st
      by (cases "db_writable e")
         (simp_all add: persist_cases addAttendance_Json new_record_def success_reply_def)
  qed
  from first second show ?thesis by blast
qed


theorem duplicate_present_suppressed_witness:
  "mark ex_env ex_clock ex_request ex_store =
     (AlreadyMarked ''Already marked present today (2026-02-11T23:30:00.002Z).'', ex_store) \<and>
   db_json (snd (mark ex_env ex_clock ex_private_request ex_store)) =
     Json (ex_db\<lparr>attendance := Some [ex_record,
        \<lparr>timestamp = ''2026-02-11T23:30:00.002Z'', student_id = ''U002'',
          student_name = ''Ada'', status = ''Absent'', clientIp = ''10.0.0.5'',
          allowedIp = Some ''203.0.113.9'', isPrivate = True, proxy = False,
          reason = ''private_ip''\<rparr>]\<rparr>)"
proof -
  have v: "truthy (body_student_id ex_request)" "truthy (body_student_name ex_request)"
    "truthy (body_student_id ex_private_request)" "truthy (body_student_name ex_private_request)"
    by (simp_all add: ex_request_def ex_private_request_def truthy_def)
  have i: "extractClientIp ex_request \<noteq> []" "extractClientIp ex_private_request \<noteq> []"
    by (simp_all add: ex_client_ip)
  have h: "db_json ex_store = Json ex_db" "attendance ex_db = Some [ex_record]"
    by (simp_all add: ex_store_def ex_db_def)
  have r1: "expected_rules ex_env ex_request (orEmpty (body_student_id ex_request))
      (extractClientIp ex_request) (db_json ex_store) = ((''203.0.113.9'', False, False), Json ex_db)"
    by (simp add: expected_rules_def getExpectedIp_def loadDb_cases ex_store_def ex_db_def
        ex_env_def truthy_def ex_client_ip ex_private ex_fields)
       (simp add: orEmpty_def)
  have r2: "expected_rules ex_env ex_private_request (orEmpty (body_student_id ex_private_request))
      (extractClientIp ex_private_request) (db_json ex_store) =
        ((''203.0.113.9'', True, False), Json ex_db)"
    by (simp add: expected_rules_def getExpectedIp_def loadDb_cases ex_store_def ex_db_def
        ex_env_def truthy_def ex_client_ip ex_private ex_fields)
       (simp add: orEmpty_def)
  show ?thesis
    using duplicate_present_suppressed [OF v(1) v(2) i(1) h r1, of ex_clock]
      duplicate_present_suppressed [OF v(3) v(4) i(2) h r2, of ex_clock]
    by (simp add: ex_client_ip attendance_logic_def ex_record_def ex_clock_def iso_check iso_json
        ex_fields ex_env_def)
qed

section \<open>Failure of the tabular store\<close>

lemma mark_xlsx_independent:
  "fst (mark (e\<lparr>xlsx_writable := w\<rparr>) clk req (s\<lparr>attendance_xlsx := x\<rparr>)) =
     fst (mark e clk req s) \<and>
   db_json (snd (mark (e\<lparr>xlsx_writable := w\<rparr>) clk req (s\<lparr>attendance_xlsx := x\<rparr>))) =
     db_json (snd (mark e clk req s))"
  by (simp add: mark_def Let_def expected_rules_def alreadyMarkedPresent_def persist_cases
        split: prod.split option.split)




lemma ex_truthy:
  "truthy (body_student_id ex_request)" "truthy (body_student_name ex_request)"
  "truthy (body_student_id ex_private_request)" "truthy (body_student_name ex_private_request)"
  by (simp_all add: ex_request_def ex_private_request_def truthy_def)

lemma ex_mark_empty_store:
  "mark (ex_env\<lparr>xlsx_writable := w\<rparr>) ex_clock ex_request ex_empty_store =
     (Marked \<lparr>res_message = ''Successfully marked Present (IP matched: 203.0.113.9).'',
              res_status = ''Present'', res_clientIp = ''203.0.113.9'',
              res_expectedIp = Some ''203.0.113.9'', res_isPrivate = False,
              res_proxy = False, res_reason = ''ip_matched''\<rparr>,
      \<lparr>db_json = Json \<lparr>users = Some Map.empty, attendance = Some [ex_record]\<rparr>,
       attendance_xlsx =
         (if w then Xlsx [(''Attendance'',
             [[''ID'', ''Name'', ''Date'', ''Time'', ''IP Address'', ''Status''],
              [''U002'', ''Ada'', ''2026-02-11'', ''05:00:00'', ''203.0.113.9'', ''Present'']])]
          else NoXlsx)\<rparr>)"
proof -
  have t: "takeWhile (\<lambda>c. c \<noteq> CHR ''T'') (toISOString 1770852600001) = ''2026-02-11''"
    "fixedOffsetTimeString 330 1770852600001 = ''05:00:00''"
    by code_simp+
  show ?thesis
    by (simp add: mark_def ex_truthy ex_client_ip ex_fields ex_private expected_rules_def
        getExpectedIp_def loadDb_cases initialDb_def ex_empty_store_def ex_env_def
        option_string_simps Let_def attendance_logic_def alreadyMarkedPresent_def getAttendanceForStudent_def
        persist_cases addAttendance_def saveDb_def writeFileSync_def stringify_def
        new_record_def success_reply_def ex_clock_def iso_json ex_record_def excel_save_def
        load_worksheet_def readFile_def addWorksheet_def name_exists_def writeFile_def
        header_row_def t)
qed



section \<open>Failure of the document store\<close>

lemma attendance_logic_range:
  "(fst (attendance_logic ip priv allowed) = ''Present'' \<or>
    fst (attendance_logic ip priv allowed) = ''Absent'') \<and>
   snd (attendance_logic ip priv allowed) \<in>
     {''private_ip'', ''missing_expected_ip'', ''ip_matched'', ''ip_mismatch''}"
  by (simp add: attendance_logic_def)

lemma mark_not_suppressed:
  assumes valid: "truthy (body_student_id req)" "truthy (body_student_name req)"
      and ip: "extractClientIp req \<noteq> []"
      and rules: "expected_rules e req (orEmpty (body_student_id req)) (extractClientIp req)
                    (db_json s) = ((allowed, priv, prox), f1)"
      and hist: "alreadyMarkedPresent e clk (orEmpty (body_student_id req)) f1 = (found, f2)"
      and nosup: "found = None \<or>
                  fst (attendance_logic (extractClientIp req) priv allowed) \<noteq> ''Present''"
  shows "mark e clk req s =
     persist e clk (orEmpty (body_student_id req)) (orEmpty (body_student_name req))
       (extractClientIp req) allowed priv prox
       (fst (attendance_logic (extractClientIp req) priv allowed))
       (snd (attendance_logic (extractClientIp req) priv allowed)) (s\<lparr>db_json := f2\<rparr>)"
  using assms by (cases found) (auto simp: mark_def Let_def)

text \<open>
  C5. For a valid submission that is not suppressed (no Present record of the day was
  found, or the computed status is not Present): when the append to the JSON database
  raises, the reply is the server error with status 500; when it returns, the reply is
  the success reply carrying the computed status (Present or Absent) and reason (one of
  the four reason codes). Neither case depends on the Excel store: the append to the
  JSON database is made, and its effect on \<open>db.json\<close> is the same, whether the Excel
  write succeeded or failed, and the Excel file is the written one or, on failure, the
  old one.
\<close>

theorem document_failure_fatal_tabular_not:
  assumes valid: "truthy (body_student_id req)" "truthy (body_student_name req)"
      and ip: "extractClientIp req \<noteq> []"
      and rules: "expected_rules e req (orEmpty (body_student_id req)) (extractClientIp req)
                    (db_json s) = ((allowed, priv, prox), f1)"
      and hist: "alreadyMarkedPresent e clk (orEmpty (body_student_id req)) f1 = (found, f2)"
      and nosup: "found = None \<or>
                  fst (attendance_logic (extractClientIp req) priv allowed) \<noteq> ''Present''"
  shows
    "(let sid = orEmpty (body_student_id req);
          sname = orEmpty (body_student_name req);
          ip = extractClientIp req;
          st = fst (attendance_logic ip priv allowed);
          rsn = snd (attendance_logic ip priv allowed);
          appended = addAttendance (db_writable e)
                       (new_record clk sid sname ip allowed priv prox st rsn) f2
      in (fst appended \<noteq> Inr () \<longrightarrow>
            fst (mark e clk req s) =
              Failure 500 ''Server error saving attendance to database.'') \<and>
         (fst appended = Inr () \<longrightarrow>
            (\<exists>b. fst (mark e clk req s) = Marked b \<and> res_status b = st \<and> res_reason b = rsn) \<and>
            (st = ''Present'' \<or> st = ''Absent'') \<and>
            rsn \<in> {''private_ip'', ''missing_expected_ip'', ''ip_matched'', ''ip_mismatch''}) \<and>
         db_json (snd (mark e clk req s)) = snd appended \<and>
         attendance_xlsx (snd (mark e clk req s)) =
           (case excel_save e (now_excel clk) sid sname ip st (attendance_xlsx s) of
              Inr x \<Rightarrow> x
            | Inl err \<Rightarrow> attendance_xlsx s))"
proof -
  let ?ip = "extractClientIp req"
  let ?R = "new_record clk (orEmpty (body_student_id req)) (orEmpty (body_student_name req)) ?ip
              allowed priv prox (fst (attendance_logic ?ip priv allowed))
              (snd (attendance_logic ?ip priv allowed))"
  note m = mark_not_suppressed [OF assms]
  show ?thesis
  proof (cases "fst (addAttendance (db_writable e) ?R f2)")
    case (Inl err)
    then show ?thesis
      by (simp add: m persist_cases Let_def split: sum.split)
  next
    case (Inr u)
    then show ?thesis
      using attendance_logic_range [of ?ip priv allowed]
      by (simp add: m persist_cases Let_def success_reply_def split: sum.split)
  qed
qed

theorem document_failure_fatal_tabular_not_witness:
  "fst (mark (ex_env\<lparr>db_writable := False\<rparr>) ex_clock ex_private_request ex_store) =
     Failure 500 ''Server error saving attendance to database.'' \<and>
   db_json (snd (mark (ex_env\<lparr>db_writable := False\<rparr>) ex_clock ex_private_request ex_store)) =
     Json ex_db \<and>
   (\<exists>b. fst (mark (ex_env\<lparr>xlsx_writable := False\<rparr>) ex_clock ex_private_request ex_store) =
          Marked b \<and> res_status b = ''Absent'' \<and> res_reason b = ''private_ip'') \<and>
   attendance_xlsx (snd (mark (ex_env\<lparr>xlsx_writable := False\<rparr>) ex_clock ex_private_request
     ex_store)) = NoXlsx"
proof -
  have r: "expected_rules (ex_env\<lparr>db_writable := False\<rparr>) ex_private_request
      (orEmpty (body_student_id ex_private_request)) (extractClientIp ex_private_request)
      (db_json ex_store) = ((''203.0.113.9'', True, False), Json ex_db)"
    "expected_rules (ex_env\<lparr>xlsx_writable := False\<rparr>) ex_private_request
      (orEmpty (body_student_id ex_private_request)) (extractClientIp ex_private_request)
      (db_json ex_store) = ((''203.0.113.9'', True, False), Json ex_db)"
    by (simp_all add: expected_rules_def getExpectedIp_def loadDb_cases ex_store_def ex_db_def
        ex_env_def ex_client_ip ex_private ex_fields option_string_simps)
  have a: "attendance ex_db = Some [ex_record]" by (simp add: ex_db_def)
  have h: "alreadyMarkedPresent (ex_env\<lparr>db_writable := False\<rparr>) ex_clock
      (orEmpty (body_student_id ex_private_request)) (Json ex_db) = (Some ex_record, Json ex_db)"
    "alreadyMarkedPresent (ex_env\<lparr>xlsx_writable := False\<rparr>) ex_clock
      (orEmpty (body_student_id ex_private_request)) (Json ex_db) = (Some ex_record, Json ex_db)"
    by (simp_all add: alreadyMarkedPresent_Json [OF a] ex_fields ex_record_def ex_clock_def
        iso_check)
  have n: "Some ex_record = None \<or>
      fst (attendance_logic (extractClientIp ex_private_request) True ''203.0.113.9'') \<noteq> ''Present''"
    by (simp add: attendance_logic_def)
  show ?thesis
    using document_failure_fatal_tabular_not [OF ex_truthy(3) ex_truthy(4) _ r(1) h(1) n]
      document_failure_fatal_tabular_not [OF ex_truthy(3) ex_truthy(4) _ r(2) h(2) n]
    by (simp add: ex_client_ip ex_fields attendance_logic_def Let_def
        addAttendance_Json [OF a] ex_env_def ex_store_def excel_save_def load_worksheet_def
        readFile_def addWorksheet_def name_exists_def writeFile_def)
qed

section \<open>The date and time columns\<close>

lemma digit_plain: "plain_char (digit_char n)"
proof -
  have "n mod 10 < length ''0123456789''" by simp
  then have "digit_char n \<in> set ''0123456789''"
    unfolding digit_char_def by (rule nth_mem)
  moreover have "list_all plain_char ''0123456789''"
    by code_simp
  ultimately show ?thesis
    unfolding list_all_iff by blast
qed

lemma pad_plain: "list_all plain_char (pad w n)"
  by (induction w arbitrary: n) (simp_all add: digit_plain)

lemma sign_plain: "plain_char CHR ''-''" "plain_char CHR ''+''"
  by code_simp+

lemma year_string_plain: "list_all plain_char (year_string y)"
  by (simp add: year_string_def pad_plain sign_plain del: pad.simps)

lemma isoDate_plain: "list_all plain_char (isoDate t)"
proof -
  obtain y m d where c: "civil_from_days (t div 86400000) = (y, m, d)"
    by (cases "civil_from_days (t div 86400000)")
  show ?thesis
    by (simp add: isoDate_def c pad2_def pad_plain year_string_plain sign_plain del: pad.simps)
qed


lemma takeWhile_toISOString:
  "takeWhile (\<lambda>c. c \<noteq> CHR ''T'') (toISOString t) = isoDate t"
proof -
  have "\<And>c. c \<in> set (isoDate t) \<Longrightarrow> c \<noteq> CHR ''T''"
    using isoDate_plain [of t] unfolding list_all_iff plain_char_def by blast
  then show ?thesis
    by (simp add: toISOString_def takeWhile_append2)
qed


lemma isoDate_same_day: "t div 86400000 = t' div 86400000 \<Longrightarrow> isoDate t = isoDate t'"
  by (simp add: isoDate_def)

lemma iso_days:
  "isoDate 0 = ''1970-01-01''" "isoDate (- 1) = ''1969-12-31''"
  "isoDate 86399999 = ''1970-01-01''" "isoDate 86400000 = ''1970-01-02''"
  by code_simp+



lemma utc_date_differs_from_local_date:
  assumes "off \<noteq> 0" "- 1440 \<le> off" "off \<le> 1440"
  shows "\<exists>t. isoDate t \<noteq> fixedOffsetDate off t"
proof (cases "0 < off")
  case True
  with assms have "(86399999 + off * 60000) div 86400000 = (1::int)"
    by linarith
  then have "isoDate (86399999 + off * 60000) = isoDate 86400000"
    by (intro isoDate_same_day) simp
  then have "isoDate 86399999 \<noteq> fixedOffsetDate off 86399999"
    by (simp add: fixedOffsetDate_def iso_days)
  then show ?thesis ..
next
  case False
  with assms have "(off * 60000) div 86400000 = (- 1::int)"
    by linarith
  then have "isoDate (0 + off * 60000) = isoDate (- 1)"
    by (intro isoDate_same_day) simp
  then have "isoDate 0 \<noteq> fixedOffsetDate off 0"
    by (simp add: fixedOffsetDate_def iso_days)
  then show ?thesis ..
qed


section \<open>Writing the tabular store\<close>

lemma getWorksheet_putWorksheet:
  "getWorksheet wb n = Some w \<Longrightarrow> getWorksheet (putWorksheet n ws wb) n = Some ws"
  by (induction wb) (auto simp: getWorksheet_def)

lemma getWorksheet_append_new:
  "getWorksheet wb n = None \<Longrightarrow> getWorksheet (wb @ [(n, ws)]) n = Some ws"
  by (simp add: getWorksheet_def map_add_def split: option.splits)



lemma load_worksheet_None:
  "load_worksheet e f = None \<Longrightarrow>
   getWorksheet (case readFile e f of Some wb \<Rightarrow> wb | None \<Rightarrow> []) ''Attendance'' = None"
  by (cases "readFile e f")
     (simp_all add: load_worksheet_def getWorksheet_def split: option.splits)

text \<open>
  A save that goes through leaves a workbook whose Attendance worksheet ends with the data
  row: after the rows that the worksheet held, as they were read, or after the header row
  of a worksheet that the save created.
\<close>

lemma excel_save_Inr:
  assumes "excel_save e t sid sname ip st f = Inr x"
  shows "\<exists>wb ws. x = Xlsx wb \<and> getWorksheet wb ''Attendance'' = Some ws \<and>
           ws = (case load_worksheet e f of
                   Some (wb0, ws0) \<Rightarrow> ws0
                 | None \<Rightarrow> [header_row]) @
                [[sid, sname, isoDate t, toLocaleTimeString e t, ip, st]]"
proof (cases "load_worksheet e f")
  case None
  let ?wb0 = "case readFile e f of Some wb \<Rightarrow> wb | None \<Rightarrow> []"
  let ?rows = "[header_row, [sid, sname, isoDate t, toLocaleTimeString e t, ip, st]]"
  from None have "getWorksheet ?wb0 ''Attendance'' = None"
    by (rule load_worksheet_None)
  then have g: "getWorksheet (?wb0 @ [(''Attendance'', ?rows)]) ''Attendance'' = Some ?rows"
    by (rule getWorksheet_append_new)
  from assms None have "x = Xlsx (?wb0 @ [(''Attendance'', ?rows)])"
    by (simp add: excel_save_def takeWhile_toISOString Let_def addWorksheet_def writeFile_def
          split: if_splits)
  with g None show ?thesis by simp
next
  case (Some p)
  obtain wb0 ws0 where p: "p = (wb0, ws0)" by (cases p)
  with Some have l: "load_worksheet e f = Some (wb0, ws0)" by simp
  then have g0: "getWorksheet wb0 ''Attendance'' = Some ws0"
    by (auto simp: load_worksheet_def split: option.splits)
  let ?row = "[sid, sname, isoDate t, toLocaleTimeString e t, ip, st]"
  from assms l have "x = Xlsx (putWorksheet ''Attendance'' (ws0 @ [?row]) wb0)"
    by (simp add: excel_save_def takeWhile_toISOString Let_def writeFile_def split: if_splits)
  moreover have "getWorksheet (putWorksheet ''Attendance'' (ws0 @ [?row]) wb0) ''Attendance'' =
      Some (ws0 @ [?row])"
    using g0 by (rule getWorksheet_putWorksheet)
  ultimately show ?thesis using l by simp
qed

lemma ex_excel_cells:
  "takeWhile (\<lambda>c. c \<noteq> CHR ''T'') (toISOString 1770852600001) = ''2026-02-11''"
  "fixedOffsetTimeString 330 1770852600001 = ''05:00:00''"
  by code_simp+

text \<open>
  C7. On a write to the Excel file, when the file is absent or the worksheet named
  Attendance cannot be located, the worksheet is to be created with the header row ID,
  Name, Date, Time, IP Address, Status, without error, and one data row appended. The
  code does not do so when the workbook read holds no worksheet named Attendance but one
  whose name differs from it in letter case only: creating the worksheet raises, the
  handler catches the exception, and the file is left as it was, without the worksheet
  and without the data row.
\<close>

theorem attendance_sheet_name_clash:
  assumes "readFile e f = Some wb" "getWorksheet wb ''Attendance'' = None"
    "name_exists wb ''Attendance''"
  shows "excel_save e t sid sname ip st f = Inl WorksheetExists \<and>
         attendance_xlsx (snd (persist e clk sid sname ip allowed priv prox st rsn
           (s\<lparr>attendance_xlsx := f\<rparr>))) = f"
proof -
  from assms have l: "load_worksheet e f = None"
    by (simp add: load_worksheet_def)
  have x: "excel_save e t sid sname ip st f = Inl WorksheetExists" for t
    using assms by (simp add: excel_save_def l addWorksheet_def)
  then show ?thesis
    by (simp add: persist_cases)
qed

theorem attendance_sheet_name_clash_witness:
  "xlsx_writable ex_env \<and>
   readFile ex_env ex_clash_file = Some [(''attendance'',
     [[''ID'', ''Name'', ''Date'', ''Time'', ''IP Address'', ''Status'']])] \<and>
   excel_save ex_env (now_excel ex_clock) ''U002'' ''Ada'' ''203.0.113.9'' ''Present''
     ex_clash_file = Inl WorksheetExists \<and>
   fst (mark ex_env ex_clock ex_request (ex_empty_store\<lparr>attendance_xlsx := ex_clash_file\<rparr>)) =
     Marked \<lparr>res_message = ''Successfully marked Present (IP matched: 203.0.113.9).'',
             res_status = ''Present'', res_clientIp = ''203.0.113.9'',
             res_expectedIp = Some ''203.0.113.9'', res_isPrivate = False,
             res_proxy = False, res_reason = ''ip_matched''\<rparr> \<and>
   attendance_xlsx (snd (mark ex_env ex_clock ex_request
     (ex_empty_store\<lparr>attendance_xlsx := ex_clash_file\<rparr>))) = ex_clash_file"
proof -
  let ?wb = "[(''attendance'',
     [[''ID'', ''Name'', ''Date'', ''Time'', ''IP Address'', ''Status'']])]"
  have a: "xlsx_writable ex_env" by (simp add: ex_env_def)
  have r: "readFile ex_env ex_clash_file = Some ?wb" by code_simp
  have g: "getWorksheet ?wb ''Attendance'' = None" by code_simp
  have n: "name_exists ?wb ''Attendance''" by code_simp
  have d: "fst (mark ex_env ex_clock ex_request
      (ex_empty_store\<lparr>attendance_xlsx := ex_clash_file\<rparr>)) =
     Marked \<lparr>res_message = ''Successfully marked Present (IP matched: 203.0.113.9).'',
             res_status = ''Present'', res_clientIp = ''203.0.113.9'',
             res_expectedIp = Some ''203.0.113.9'', res_isPrivate = False,
             res_proxy = False, res_reason = ''ip_matched''\<rparr>"
    by code_simp
  have e: "attendance_xlsx (snd (mark ex_env ex_clock ex_request
     (ex_empty_store\<lparr>attendance_xlsx := ex_clash_file\<rparr>))) = ex_clash_file"
    by code_simp
  from a r d e
    attendance_sheet_name_clash [OF r g n, where t = "now_excel ex_clock" and sid = "''U002''"
      and sname = "''Ada''" and ip = "''203.0.113.9''" and st = "''Present''"]
  show ?thesis by simp
qed

section \<open>The row that a submission writes\<close>

lemma mark_Marked_persist:
  assumes "fst (mark e clk req s) = Marked b"
  shows "\<exists>allowed priv prox rsn f2.
     mark e clk req s =
       persist e clk (orEmpty (body_student_id req)) (orEmpty (body_student_name req))
         (extractClientIp req) allowed priv prox (res_status b) rsn (s\<lparr>db_json := f2\<rparr>)"
proof -
  obtain allowed priv prox f1 where r: "expected_rules e req (orEmpty (body_student_id req))
      (extractClientIp req) (db_json s) = ((allowed, priv, prox), f1)"
    by (metis prod_cases3 surj_pair)
  obtain found f2 where h: "alreadyMarkedPresent e clk (orEmpty (body_student_id req)) f1 =
      (found, f2)"
    by (cases "alreadyMarkedPresent e clk (orEmpty (body_student_id req)) f1")
  let ?st = "fst (attendance_logic (extractClientIp req) priv allowed)"
  let ?rsn = "snd (attendance_logic (extractClientIp req) priv allowed)"
  have m: "mark e clk req s =
       persist e clk (orEmpty (body_student_id req)) (orEmpty (body_student_name req))
         (extractClientIp req) allowed priv prox ?st ?rsn (s\<lparr>db_json := f2\<rparr>)"
    using assms r h by (cases found) (auto simp: mark_def Let_def split: if_splits)
  with assms have "res_status b = ?st"
    using persist_Marked by metis
  with m show ?thesis by metis
qed

text \<open>
  C9. For every submission answered with the success reply whose Excel save goes through,
  the Excel file is the saved workbook, and the last row of its Attendance worksheet
  holds, as its Date, the UTC date of the instant read for the Excel save (the part of
  its ISO string before the letter T) and, as its Time, that same instant rendered by the
  server's local time zone. The duplicate check compares the first ten characters of the
  stored ISO timestamps with those of the ISO string of the instant of the check, that
  is, UTC dates. For a zone at any fixed offset other than zero (up to a day), there are
  instants whose UTC date is not the local date, so the Date and Time of one row need not
  belong to the same calendar day of either zone.
\<close>

theorem stored_date_is_utc_time_is_local:
  "(excel_save e (now_excel clk) (orEmpty (body_student_id req))
        (orEmpty (body_student_name req)) (extractClientIp req) (res_status b)
        (attendance_xlsx s) = Inr x \<and>
    fst (mark e clk req s) = Marked b \<longrightarrow>
      attendance_xlsx (snd (mark e clk req s)) = x \<and>
      (\<exists>wb ws. x = Xlsx wb \<and> getWorksheet wb ''Attendance'' = Some ws \<and> ws \<noteq> [] \<and>
               last ws = [orEmpty (body_student_id req), orEmpty (body_student_name req),
                          isoDate (now_excel clk), toLocaleTimeString e (now_excel clk),
                          res_clientIp b, res_status b])) \<and>
   isoDate (now_excel clk) = takeWhile (\<lambda>c. c \<noteq> CHR ''T'') (toISOString (now_excel clk)) \<and>
   (attendance d = Some recs \<longrightarrow>
      fst (alreadyMarkedPresent e clk sid (Json d)) =
        find (\<lambda>r. take 10 (timestamp r) = take 10 (toISOString (now_check clk)) \<and>
                   status r = ''Present'')
          (filter (\<lambda>r. student_id r = sid) recs)) \<and>
   (off \<noteq> 0 \<and> - 1440 \<le> off \<and> off \<le> 1440 \<longrightarrow> (\<exists>t. isoDate t \<noteq> fixedOffsetDate off t))"
proof -
  have a: "attendance_xlsx (snd (mark e clk req s)) = x \<and>
      (\<exists>wb ws. x = Xlsx wb \<and> getWorksheet wb ''Attendance'' = Some ws \<and> ws \<noteq> [] \<and>
               last ws = [orEmpty (body_student_id req), orEmpty (body_student_name req),
                          isoDate (now_excel clk), toLocaleTimeString e (now_excel clk),
                          res_clientIp b, res_status b])"
    if x: "excel_save e (now_excel clk) (orEmpty (body_student_id req))
        (orEmpty (body_student_name req)) (extractClientIp req) (res_status b)
        (attendance_xlsx s) = Inr x"
      and m: "fst (mark e clk req s) = Marked b"
  proof -
    from m obtain allowed priv prox rsn f2 where p: "mark e clk req s =
       persist e clk (orEmpty (body_student_id req)) (orEmpty (body_student_name req))
         (extractClientIp req) allowed priv prox (res_status b) rsn (s\<lparr>db_json := f2\<rparr>)"
      using mark_Marked_persist by blast
    from m have ip: "res_clientIp b = extractClientIp req"
      using mark_Marked by blast
    have "attendance_xlsx (snd (mark e clk req s)) = x"
      unfolding p using x by (simp add: persist_cases)
    moreover have "\<exists>wb ws. x = Xlsx wb \<and> getWorksheet wb ''Attendance'' = Some ws \<and>
        ws \<noteq> [] \<and>
        last ws = [orEmpty (body_student_id req), orEmpty (body_student_name req),
                   isoDate (now_excel clk), toLocaleTimeString e (now_excel clk),
                   extractClientIp req, res_status b]"
      using excel_save_Inr [OF x] by auto
    ultimately show ?thesis by (simp add: ip)
  qed
  have c: "\<exists>t. isoDate t \<noteq> fixedOffsetDate off t"
    if "off \<noteq> 0 \<and> - 1440 \<le> off \<and> off \<le> 1440"
    using that utc_date_differs_from_local_date by blast
  show ?thesis
    using a c by (simp add: takeWhile_toISOString alreadyMarkedPresent_Json)
qed

theorem stored_date_is_utc_time_is_local_witness:
  "attendance_xlsx (snd (mark ex_env ex_clock ex_request ex_empty_store)) =
     Xlsx [(''Attendance'',
        [[''ID'', ''Name'', ''Date'', ''Time'', ''IP Address'', ''Status''],
         [''U002'', ''Ada'', ''2026-02-11'', ''05:00:00'', ''203.0.113.9'', ''Present'']])] \<and>
   isoDate (now_excel ex_clock) = ''2026-02-11'' \<and>
   toLocaleTimeString ex_env (now_excel ex_clock) = ''05:00:00'' \<and>
   fixedOffsetDate 330 (now_excel ex_clock) = ''2026-02-12'' \<and>
   (\<exists>t. isoDate t \<noteq> fixedOffsetDate 330 t)"
proof -
  let ?x = "Xlsx [(''Attendance'',
        [[''ID'', ''Name'', ''Date'', ''Time'', ''IP Address'', ''Status''],
         [''U002'', ''Ada'', ''2026-02-11'', ''05:00:00'', ''203.0.113.9'', ''Present'']])]"
  let ?b = "\<lparr>res_message = ''Successfully marked Present (IP matched: 203.0.113.9).'',
              res_status = ''Present'', res_clientIp = ''203.0.113.9'',
              res_expectedIp = Some ''203.0.113.9'', res_isPrivate = False,
              res_proxy = False, res_reason = ''ip_matched''\<rparr>"
  have e: "ex_env\<lparr>xlsx_writable := True\<rparr> = ex_env" by (simp add: ex_env_def)
  have d: "fixedOffsetDate 330 1770852600001 = ''2026-02-12''" by code_simp
  have s: "excel_save ex_env (now_excel ex_clock) (orEmpty (body_student_id ex_request))
        (orEmpty (body_student_name ex_request)) (extractClientIp ex_request) (res_status ?b)
        (attendance_xlsx ex_empty_store) = Inr ?x"
    by (simp add: excel_save_def ex_env_def ex_empty_store_def load_worksheet_def readFile_def
        addWorksheet_def name_exists_def writeFile_def header_row_def ex_fields ex_client_ip
        ex_clock_def ex_excel_cells)
  show ?thesis
    using ex_mark_empty_store [of True] s
      stored_date_is_utc_time_is_local [of ex_env ex_clock ex_request ?b ex_empty_store ?x
        ex_db "[ex_record]" "''U002''" 330]
    by (simp add: e ex_excel_cells takeWhile_toISOString [symmetric] d ex_clock_def ex_env_def)
qed

section \<open>Reading the tabular store back\<close>









section \<open>Reports when the tabular store cannot be used\<close>

lemma getAllAttendance_Json:
  "attendance d = Some recs \<Longrightarrow> getAllAttendance w (Json d) = (recs, Json d)"
  by (simp add: getAllAttendance_def loadDb_cases)

lemma fallback_row_parsed:
  "Date_parse e (timestamp r) = Some t \<Longrightarrow>
   fallback_row e r =
     \<lparr>row_id = student_id r, row_name = student_name r, row_date = isoDate t,
      row_time = toLocaleTimeString e t, row_ip = clientIp r, row_status = status r\<rparr>"
  by (simp add: fallback_row_def takeWhile_toISOString)

lemma fallback_row_unparsed:
  "Date_parse e (timestamp r) = None \<Longrightarrow>
   fallback_row e r =
     \<lparr>row_id = student_id r, row_name = student_name r, row_date = [],
      row_time = [], row_ip = clientIp r, row_status = status r\<rparr>"
  by (simp add: fallback_row_def)

text \<open>
  C4 (as amended). With a document store that holds the list \<open>recs\<close>: when the Excel
  file exists but cannot be read, the report is one entry for every record of the
  document store, in order, each with the student id, name, client address and status of
  the record, with the UTC date of its stored timestamp as date and the local rendering
  of that instant as time (both empty when the timestamp does not parse). When the Excel
  file is absent, the report is empty: the handler tests for the file and does not turn
  to the document store. When the file is readable, the report is read from its
  worksheet named Attendance, or else its first worksheet, and is empty when it has none. The reply of a submission, and so the check of the history for duplicates,
  does not depend on the Excel file: the history is always read from the document store.
\<close>

theorem report_fallback_on_unreadable_file:
  assumes "db_json s = Json d" "attendance d = Some recs"
  shows
    "(attendance_xlsx s = Unreadable \<longrightarrow>
        read_records e s = (map (fallback_row e) recs, s)) \<and>
     (Date_parse e (timestamp r) = Some t \<longrightarrow>
        fallback_row e r =
          \<lparr>row_id = student_id r, row_name = student_name r, row_date = isoDate t,
           row_time = toLocaleTimeString e t, row_ip = clientIp r, row_status = status r\<rparr>) \<and>
     (Date_parse e (timestamp r) = None \<longrightarrow>
        fallback_row e r =
          \<lparr>row_id = student_id r, row_name = student_name r, row_date = [],
           row_time = [], row_ip = clientIp r, row_status = status r\<rparr>) \<and>
     (attendance_xlsx s = NoXlsx \<longrightarrow> read_records e s = ([], s)) \<and>
     (readFile e (attendance_xlsx s) = Some wb \<longrightarrow>
        read_records e s =
          ((case report_sheet wb of None \<Rightarrow> [] | Some sheet \<Rightarrow> read_sheet sheet), s)) \<and>
     fst (mark e clk req (s\<lparr>attendance_xlsx := x\<rparr>)) = fst (mark e clk req s) \<and>
     fst (alreadyMarkedPresent e clk sid (db_json (s\<lparr>attendance_xlsx := x\<rparr>))) =
       find (\<lambda>r. take 10 (timestamp r) = take 10 (toISOString (now_check clk)) \<and>
                  status r = ''Present'')
         (filter (\<lambda>r. student_id r = sid) recs)"
proof -
  have s: "s\<lparr>db_json := Json d\<rparr> = s" using assms(1) by simp
  have u: "read_records e s = (map (fallback_row e) recs, s)" if "attendance_xlsx s = Unreadable"
    using that assms s by (simp add: read_records_def readFile_def getAllAttendance_Json)
  have x: "read_records e s =
      ((case report_sheet wb of None \<Rightarrow> [] | Some sheet \<Rightarrow> read_sheet sheet), s)"
    if "readFile e (attendance_xlsx s) = Some wb"
    using that
    by (cases "attendance_xlsx s")
       (simp_all add: read_records_def readFile_def split: option.splits)
  have m: "fst (mark e clk req (s\<lparr>attendance_xlsx := x\<rparr>)) = fst (mark e clk req s)"
    using mark_xlsx_independent [where e = e and w = "xlsx_writable e" and clk = clk
        and req = req and s = s and x = x]
    by simp
  show ?thesis
    using assms u m x
    by (simp add: fallback_row_parsed fallback_row_unparsed alreadyMarkedPresent_Json)
       (simp add: read_records_def)
qed

lemma ex_parse: "ex_Date_parse ''2026-02-11T23:30:00.002Z'' = Some 1770852600002"
  by (simp add: ex_Date_parse_def)

lemma ex_fallback_cells:
  "isoDate 1770852600002 = ''2026-02-11''"
  "fixedOffsetTimeString 330 1770852600002 = ''05:00:00''"
  by code_simp+

theorem report_fallback_on_unreadable_file_witness:
  "read_records ex_env ex_unreadable_store =
     ([\<lparr>row_id = ''U002'', row_name = ''Ada'', row_date = ''2026-02-11'',
        row_time = ''05:00:00'', row_ip = ''203.0.113.9'', row_status = ''Present''\<rparr>],
      ex_unreadable_store) \<and>
   read_records ex_env ex_store = ([], ex_store)"
proof -
  have a: "attendance ex_db = Some [ex_record]" by (simp add: ex_db_def)
  have p: "Date_parse ex_env (timestamp ex_record) = Some 1770852600002"
    by (simp add: ex_env_def ex_record_def ex_parse)
  have u: "db_json ex_unreadable_store = Json ex_db"
    "attendance_xlsx ex_unreadable_store = Unreadable"
    by (simp_all add: ex_unreadable_store_def)
  have n: "db_json ex_store = Json ex_db" "attendance_xlsx ex_store = NoXlsx"
    by (simp_all add: ex_store_def)
  have l: "toLocaleTimeString ex_env = fixedOffsetTimeString 330" by (simp add: ex_env_def)
  have f: "student_id ex_record = ''U002''" "student_name ex_record = ''Ada''"
    "clientIp ex_record = ''203.0.113.9''" "status ex_record = ''Present''"
    by (simp_all add: ex_record_def)
  show ?thesis
    using report_fallback_on_unreadable_file [OF u(1) a, where e = ex_env and r = ex_record
        and t = 1770852600002]
      report_fallback_on_unreadable_file [OF n(1) a, where e = ex_env and r = ex_record
        and t = 1770852600002]
    by (simp add: p u n l f ex_fallback_cells)
qed

text \<open>
  C4 as stated fails: with the Excel file deleted and one record persisted in the
  document store, the report is the empty list.
\<close>

theorem report_of_deleted_file_counterexample:
  "attendance_xlsx ex_store = NoXlsx \<and>
   fst (getAllAttendance (db_writable ex_env) (db_json ex_store)) = [ex_record] \<and>
   fst (read_records ex_env ex_store) = []"
  by (simp add: ex_store_def read_records_def getAllAttendance_def loadDb_cases ex_db_def)


end
